theory Spec2Isabelle
  imports Complex_Main
begin

section \<open>The autograd wrapper of the Gaussian rasteriser (diff\_rast/rasterize.py)\<close>

text \<open>
  The module wraps two functions of the native extension \<^verbatim>\<open>cuda_lib\<close> as a
  \<^verbatim>\<open>torch.autograd.Function\<close>: \<^verbatim>\<open>rasterize.forward\<close> validates and converts its arguments,
  calls \<^verbatim>\<open>cuda_lib.rasterize_forward\<close> and saves state on \<^verbatim>\<open>ctx\<close>;
  \<^verbatim>\<open>rasterize.backward\<close> calls \<^verbatim>\<open>cuda_lib.rasterize_backward\<close> and arranges the gradients.

  Modelling decisions.
  \<^item> A tensor is a Python object: it lives in a store and the program holds references
    to it. The fields of a tensor are what the wrapper reads: shape, dtype, device,
    whether its memory is contiguous, and its elements in row-major order.
  \<^item> Numbers are real numbers: an integer tensor holds integral reals, and a floating
    value is the real it denotes. Every floating-point operation of the wrapper rounds
    its exact result to the format (\<open>round_binary\<close>, to nearest, ties to even);
    infinities and NaN are not values of the model.
  \<^item> Exceptions are values of \<open>py_error\<close>; a computation returns the store it left
    behind together with an error or a result.
  \<^item> The native extension is a parameter of the wrapper (\<open>cuda_lib\<close>): its code is not
    part of the module. Every invocation of \<^verbatim>\<open>cuda_lib.rasterize_forward\<close> is logged
    with its arguments and the store it saw.
  \<^item> \<^verbatim>\<open>assert\<close> statements are executed (the interpreter does not run with \<^verbatim>\<open>-O\<close>),
    and a CUDA device is present.
\<close>

subsection \<open>Tensors and the store\<close>

datatype dtype = UInt8 | Int8 | Int16 | Int32 | Int64 | Float16 | Float32 | Float64

datatype device = CPU | CUDA

record tensor =
  shape :: "nat list"
  dtype :: dtype
  device :: device
  contiguous :: bool
  elems :: "real list"

type_synonym ref = nat

text \<open>The store: \<open>cells\<close> maps a reference to its object, the references below
  \<open>used\<close> are the objects that exist. A new object takes the next reference.\<close>

record store =
  cells :: "ref \<Rightarrow> tensor"
  used :: nat

datatype py_error =
  IndexError | NameError | AssertionError | RuntimeError | ValueError | OverflowError

text \<open>A Python number passed for a scalar parameter: an \<^verbatim>\<open>int\<close> or a \<^verbatim>\<open>float\<close>.\<close>

datatype py_num = IntNum int | FloatNum real

text \<open>The parameters of \<^verbatim>\<open>forward\<close> after \<^verbatim>\<open>ctx\<close>, in order. \<^verbatim>\<open>cuda_lib.rasterize_forward\<close>
  takes its thirteen positional arguments in the same order, so a call of it is recorded
  as a value of the same record.\<close>

record fwd_params =
  means3d :: ref
  scales :: ref
  glob_scale :: py_num
  rotations_quat :: ref
  colors :: ref
  opacity :: ref
  view_matrix :: ref
  proj_matrix :: ref
  img_height :: int
  img_width :: int
  fx :: py_num
  fy :: py_num
  channels :: py_num

definition forward_parameters :: "string list" where
  "forward_parameters =
     [''means3d'', ''scales'', ''glob_scale'', ''rotations_quat'', ''colors'', ''opacity'',
      ''view_matrix'', ''proj_matrix'', ''img_height'', ''img_width'', ''fx'', ''fy'',
      ''channels'']"

text \<open>The nine results of \<^verbatim>\<open>cuda_lib.rasterize_forward\<close>.\<close>

record fwd_ret =
  num_rendered :: int
  out_img :: ref
  out_radii :: ref
  final_Ts :: ref
  final_idx :: ref
  gaussian_ids_sorted :: ref
  tile_bins :: ref
  xy :: ref
  conics :: ref

text \<open>The sixteen positional arguments of \<^verbatim>\<open>cuda_lib.rasterize_backward\<close>.\<close>

record bwd_args =
  b_means3d :: ref
  b_colors :: ref
  b_scales :: ref
  b_grad_out_img :: ref
  b_img_height :: int
  b_img_width :: int
  b_fx :: py_num
  b_fy :: py_num
  b_channels :: py_num
  b_gaussian_ids_sorted :: ref
  b_tile_bins :: ref
  b_xy :: ref
  b_conics :: ref
  b_opacities :: ref
  b_final_Ts :: ref
  b_final_idx :: ref

record cuda_lib =
  rasterize_forward :: "fwd_params \<Rightarrow> store \<Rightarrow> (py_error + fwd_ret) \<times> store"
  rasterize_backward :: "bwd_args \<Rightarrow> store \<Rightarrow> (py_error + ref \<times> ref) \<times> store"

text \<open>What the wrapper can observe and change: the store and the log of the calls of
  \<^verbatim>\<open>cuda_lib.rasterize_forward\<close> made so far (arguments, and the store at the call).\<close>

record world =
  store :: store
  fwd_calls :: "(fwd_params \<times> store) list"

text \<open>The state of the process that the function reads besides its arguments: the
  module-level name \<^verbatim>\<open>means\<close> (bound only when the module runs as a script, lines 245
  and 293), and the device of the default tensor type, which the legacy constructor
  \<^verbatim>\<open>torch.Tensor(data, device=...)\<close> insists on.\<close>

record env =
  means_global :: "tensor option"
  default_tensor_device :: device

type_synonym 'a prog = "world \<Rightarrow> (py_error + 'a) \<times> world"

definition ret :: "'a \<Rightarrow> 'a prog" where
  "ret x w = (Inr x, w)"

definition raise :: "py_error \<Rightarrow> 'a prog" where
  "raise e w = (Inl e, w)"

definition then_do :: "'a prog \<Rightarrow> ('a \<Rightarrow> 'b prog) \<Rightarrow> 'b prog" where
  "then_do m f w = (case m w of (Inl e, w') \<Rightarrow> (Inl e, w') | (Inr x, w') \<Rightarrow> f x w')"

definition lift :: "py_error + 'a \<Rightarrow> 'a prog" where
  "lift r w = (r, w)"

definition tensor_at :: "world \<Rightarrow> ref \<Rightarrow> tensor" where
  "tensor_at w r = cells (store w) r"

definition new_tensor :: "tensor \<Rightarrow> ref prog" where
  "new_tensor t w =
     (Inr (used (store w)),
      w\<lparr>store := \<lparr>cells = (cells (store w))(used (store w) := t),
                   used = Suc (used (store w))\<rparr>\<rparr>)"

subsection \<open>Floating-point rounding and the conversions of Python numbers\<close>

text \<open>\<open>pow2 e\<close> is \<open>2\<^sup>e\<close> for an integer \<open>e\<close>. \<open>round_binary p emin x\<close> is the
  number of the binary format with \<open>p\<close> significant bits and least normal exponent
  \<open>emin\<close> that is nearest to \<open>x\<close>, ties going to the even significand: float32 has 24 bits
  and \<open>emin = -126\<close>, float64 (the Python \<^verbatim>\<open>float\<close>) 53 bits and \<open>emin = -1022\<close>. A result
  beyond the largest finite number of the format stands for an overflow.\<close>

definition pow2 :: "int \<Rightarrow> real" where
  "pow2 e = (if 0 \<le> e then 2 ^ nat e else 1 / 2 ^ nat (- e))"

definition round_half_even :: "real \<Rightarrow> int" where
  "round_half_even y =
     (if y - of_int \<lfloor>y\<rfloor> < 1 / 2 then \<lfloor>y\<rfloor>
      else if 1 / 2 < y - of_int \<lfloor>y\<rfloor> then \<lfloor>y\<rfloor> + 1
      else if even \<lfloor>y\<rfloor> then \<lfloor>y\<rfloor> else \<lfloor>y\<rfloor> + 1)"

definition round_binary :: "int \<Rightarrow> int \<Rightarrow> real \<Rightarrow> real" where
  "round_binary p emin x =
     (if x = 0 then 0
      else let e = max \<lfloor>log 2 \<bar>x\<bar>\<rfloor> emin
           in pow2 (e - p + 1) * of_int (round_half_even (x / pow2 (e - p + 1))))"

definition f32 :: "real \<Rightarrow> real" where
  "f32 = round_binary 24 (- 126)"

definition f64 :: "real \<Rightarrow> real" where
  "f64 = round_binary 53 (- 1022)"

definition max_f64 :: real where
  "max_f64 = (2 - pow2 (- 52)) * pow2 1023"

text \<open>\<^verbatim>\<open>float(x)\<close>: a float is returned as it is, an int is rounded to the nearest float
  and raises \<^verbatim>\<open>OverflowError\<close> when it is too large. \<^verbatim>\<open>int(x)\<close>: an int is returned as
  it is, a float is truncated towards zero.\<close>

fun py_float :: "py_num \<Rightarrow> py_error + real" where
  "py_float (FloatNum x) = Inr x"
| "py_float (IntNum n) =
     (if max_f64 < \<bar>f64 (of_int n)\<bar> then Inl OverflowError else Inr (f64 (of_int n)))"

fun py_int :: "py_num \<Rightarrow> py_error + int" where
  "py_int (IntNum n) = Inr n"
| "py_int (FloatNum x) = Inr (if 0 \<le> x then \<lfloor>x\<rfloor> else \<lceil>x\<rceil>)"

subsection \<open>The torch operations the wrapper uses\<close>

text \<open>\<^verbatim>\<open>t.shape[0]\<close>: indexing the empty shape of a 0-dimensional tensor raises.\<close>

definition shape0 :: "tensor \<Rightarrow> py_error + nat" where
  "shape0 t = (case shape t of [] \<Rightarrow> Inl IndexError | n # _ \<Rightarrow> Inr n)"

text \<open>\<^verbatim>\<open>getattr(input, "dim")\<close> is the bound method itself; it is not called. Comparing
  it with an integer by \<^verbatim>\<open>!=\<close> compares objects of different types.\<close>

datatype py_obj = PyInt int | PyBoundMethod string

fun py_ne :: "py_obj \<Rightarrow> py_obj \<Rightarrow> bool" where
  "py_ne (PyInt a) (PyInt b) = (a \<noteq> b)"
| "py_ne (PyBoundMethod f) (PyBoundMethod g) = (f \<noteq> g)"
| "py_ne _ _ = True"

definition getattr_dim :: "tensor \<Rightarrow> py_obj" where
  "getattr_dim t = PyBoundMethod ''dim''"

text \<open>\<^verbatim>\<open>torch.Tensor([0, 0, 0, 1], device=d)\<close>: the legacy constructor builds a
  float32 tensor of the default tensor type and refuses any other device.\<close>

definition legacy_Tensor :: "env \<Rightarrow> real list \<Rightarrow> device \<Rightarrow> py_error + tensor" where
  "legacy_Tensor env xs d =
     (if d \<noteq> default_tensor_device env then Inl RuntimeError
      else Inr \<lparr>shape = [length xs], dtype = Float32, device = d, contiguous = True,
                elems = xs\<rparr>)"

definition unsqueeze0 :: "tensor \<Rightarrow> tensor" where
  "unsqueeze0 t = t\<lparr>shape := 1 # shape t\<rparr>"

text \<open>The dtype of the concatenation of a tensor with a float32 tensor.\<close>

fun promote_float32 :: "dtype \<Rightarrow> dtype" where
  "promote_float32 Float64 = Float64"
| "promote_float32 _ = Float32"

text \<open>\<^verbatim>\<open>torch.cat([a, b], dim=0)\<close> for a float32 \<open>b\<close>: both need a first axis, equal
  remaining axes and the same device; the rows of \<open>b\<close> follow the rows of \<open>a\<close>.\<close>

definition torch_cat0 :: "tensor \<Rightarrow> tensor \<Rightarrow> py_error + tensor" where
  "torch_cat0 a b =
     (case (shape a, shape b) of
        (n # ra, m # rb) \<Rightarrow>
          if ra \<noteq> rb \<or> device a \<noteq> device b then Inl RuntimeError
          else Inr \<lparr>shape = (n + m) # ra, dtype = promote_float32 (dtype a),
                    device = device a, contiguous = True, elems = elems a @ elems b\<rparr>
      | _ \<Rightarrow> Inl RuntimeError)"

text \<open>\<^verbatim>\<open>t.float()\<close> returns \<open>t\<close> itself when it is float32 already, else a new tensor
  with every element rounded to float32.\<close>

definition t_float :: "ref \<Rightarrow> ref prog" where
  "t_float r w =
     (let t = tensor_at w r in
      if dtype t = Float32 then ret r w
      else new_tensor (t\<lparr>dtype := Float32, elems := map f32 (elems t)\<rparr>) w)"

text \<open>\<^verbatim>\<open>x / k\<close> for an element \<open>x\<close> of a float32 tensor and a Python number \<open>k\<close>, in
  float32. In host memory torch divides: the result is the quotient, rounded. On the
  CUDA device it multiplies by the reciprocal of \<open>k\<close>: the reciprocal is rounded, then the
  product.\<close>

definition div_scalar_f32 :: "device \<Rightarrow> real \<Rightarrow> real \<Rightarrow> real" where
  "div_scalar_f32 dv x k = (case dv of CPU \<Rightarrow> f32 (x / k) | CUDA \<Rightarrow> f32 (x * f32 (1 / k)))"

text \<open>\<^verbatim>\<open>t / k\<close> for a float32 tensor \<open>t\<close> and a number \<open>k\<close>: a new tensor.\<close>

definition t_div :: "ref \<Rightarrow> real \<Rightarrow> ref prog" where
  "t_div r k w =
     (let t = tensor_at w r
      in new_tensor (t\<lparr>elems := map (\<lambda>x. div_scalar_f32 (device t) x k) (elems t)\<rparr>) w)"

text \<open>\<^verbatim>\<open>t.contiguous()\<close> returns \<open>t\<close> itself when its memory is contiguous, and
  \<^verbatim>\<open>t.cuda()\<close> returns \<open>t\<close> itself when it is on the CUDA device; otherwise each makes
  a copy.\<close>

definition t_contiguous :: "ref \<Rightarrow> ref prog" where
  "t_contiguous r w =
     (let t = tensor_at w r in
      if contiguous t then ret r w else new_tensor (t\<lparr>contiguous := True\<rparr>) w)"

definition t_cuda :: "ref \<Rightarrow> ref prog" where
  "t_cuda r w =
     (let t = tensor_at w r in
      if device t = CUDA then ret r w else new_tensor (t\<lparr>device := CUDA\<rparr>) w)"

text \<open>\<^verbatim>\<open>t.squeeze(-1)\<close>: a new tensor object (a view) without the last axis when that
  axis has size 1, with the same shape otherwise.\<close>

definition squeeze_last :: "nat list \<Rightarrow> nat list" where
  "squeeze_last s = (if s \<noteq> [] \<and> last s = 1 then butlast s else s)"

definition t_squeeze_last :: "ref \<Rightarrow> ref prog" where
  "t_squeeze_last r w =
     (let t = tensor_at w r in new_tensor (t\<lparr>shape := squeeze_last (shape t)\<rparr>) w)"

subsection \<open>rasterize.forward\<close>

text \<open>Lines 56--58: the message of the first assertion is an f-string that reads the
  name \<^verbatim>\<open>means\<close>, which is not a variable of \<^verbatim>\<open>forward\<close>. When the assertion fails the
  message is evaluated first: \<^verbatim>\<open>means.shape[0]\<close>, then \<^verbatim>\<open>input.shape[0]\<close>.\<close>

definition batch_assert_failure :: "env \<Rightarrow> tensor \<Rightarrow> py_error" where
  "batch_assert_failure env input =
     (case means_global env of
        None \<Rightarrow> NameError
      | Some m \<Rightarrow>
          (case shape0 m of
             Inl e \<Rightarrow> e
           | Inr _ \<Rightarrow> (case shape0 input of Inl e \<Rightarrow> e | Inr _ \<Rightarrow> AssertionError)))"

text \<open>Lines 49--61: the loop over the items of the dictionary, in insertion order.\<close>

fun check_items :: "env \<Rightarrow> tensor \<Rightarrow> (string \<times> tensor) list \<Rightarrow> py_error + unit" where
  "check_items env m3d [] = Inr ()"
| "check_items env m3d ((name, input) # rest) =
     (case shape0 input of
        Inl e \<Rightarrow> Inl e
      | Inr n \<Rightarrow>
          (case shape0 m3d of
             Inl e \<Rightarrow> Inl e
           | Inr N \<Rightarrow>
               if n \<noteq> N then Inl (batch_assert_failure env input)
               else if \<not> py_ne (getattr_dim input) (PyInt 2) then Inl AssertionError
               else check_items env m3d rest))"

definition check_batch :: "env \<Rightarrow> fwd_params \<Rightarrow> unit prog" where
  "check_batch env p w =
     lift (check_items env (tensor_at w (means3d p))
       [(''means3d'', tensor_at w (means3d p)),
        (''scales'', tensor_at w (scales p)),
        (''rotations.quat'', tensor_at w (rotations_quat p)),
        (''colors'', tensor_at w (colors p)),
        (''opacity'', tensor_at w (opacity p))]) w"

text \<open>Lines 63--78: a matrix of shape \<open>(3, 4)\<close> is replaced by its concatenation with
  the row \<open>[0, 0, 0, 1]\<close>; \<open>d\<close> is the tensor whose device the row is built on
  (\<^verbatim>\<open>proj_matrix\<close> in both statements).\<close>

definition pad_matrix :: "env \<Rightarrow> ref \<Rightarrow> ref \<Rightarrow> ref prog" where
  "pad_matrix env m d w =
     (if shape (tensor_at w m) = [3, 4] then
        (case legacy_Tensor env [0, 0, 0, 1] (device (tensor_at w d)) of
           Inl e \<Rightarrow> raise e w
         | Inr row \<Rightarrow>
             (case torch_cat0 (tensor_at w m) (unsqueeze0 row) of
                Inl e \<Rightarrow> raise e w
              | Inr c \<Rightarrow> new_tensor c w))
      else ret m w)"

text \<open>Lines 79--86.\<close>

definition assert_4x4 :: "ref \<Rightarrow> unit prog" where
  "assert_4x4 m w = (if shape (tensor_at w m) = [4, 4] then ret () w else raise AssertionError w)"

text \<open>Lines 88--89.\<close>

definition normalize_colors :: "ref \<Rightarrow> ref prog" where
  "normalize_colors c w =
     (if dtype (tensor_at w c) = UInt8 then then_do (t_float c) (\<lambda>f. t_div f 255) w
      else ret c w)"

text \<open>\<^verbatim>\<open>t.contiguous().cuda()\<close>, lines 103--110.\<close>

definition to_cuda :: "ref \<Rightarrow> ref prog" where
  "to_cuda r = then_do (t_contiguous r) t_cuda"

text \<open>Lines 102--116: the call itself. It is logged before the extension runs.\<close>

definition call_rasterize_forward :: "cuda_lib \<Rightarrow> fwd_params \<Rightarrow> fwd_ret prog" where
  "call_rasterize_forward lib args w =
     (case rasterize_forward lib args (store w) of
        (r, s') \<Rightarrow> (r, \<lparr>store = s', fwd_calls = fwd_calls w @ [(args, store w)]\<rparr>))"

text \<open>The attributes and saved tensors of \<^verbatim>\<open>ctx\<close>, lines 118--140.\<close>

record ctx =
  ctx_num_rendered :: int
  ctx_glob_scale :: py_num
  ctx_view_matrix :: ref
  ctx_proj_matrix :: ref
  ctx_img_width :: int
  ctx_img_height :: int
  ctx_fx :: py_num
  ctx_fy :: py_num
  ctx_channels :: py_num
  saved_tensors :: "ref list"

text \<open>Everything before the call, lines 49--115: the local variables after line 89 and
  the arguments the extension will get, evaluated in the order in which they are
  written.\<close>

definition prepare :: "env \<Rightarrow> fwd_params \<Rightarrow> (fwd_params \<times> fwd_params) prog" where
  "prepare env p =
     then_do (check_batch env p) (\<lambda>_.
     then_do (pad_matrix env (proj_matrix p) (proj_matrix p)) (\<lambda>proj.
     then_do (pad_matrix env (view_matrix p) proj) (\<lambda>view.
     then_do (assert_4x4 proj) (\<lambda>_.
     then_do (assert_4x4 view) (\<lambda>_.
     then_do (normalize_colors (colors p)) (\<lambda>cols.
     then_do (to_cuda (means3d p)) (\<lambda>a_means3d.
     then_do (to_cuda (scales p)) (\<lambda>a_scales.
     then_do (lift (py_float (glob_scale p))) (\<lambda>a_glob_scale.
     then_do (to_cuda (rotations_quat p)) (\<lambda>a_rotations.
     then_do (to_cuda cols) (\<lambda>a_colors.
     then_do (to_cuda (opacity p)) (\<lambda>a_opacity.
     then_do (to_cuda view) (\<lambda>a_view.
     then_do (to_cuda proj) (\<lambda>a_proj.
     then_do (lift (py_float (fx p))) (\<lambda>a_fx.
     then_do (lift (py_float (fy p))) (\<lambda>a_fy.
     then_do (lift (py_int (channels p))) (\<lambda>a_channels.
     ret (p\<lparr>colors := cols, view_matrix := view, proj_matrix := proj\<rparr>,
          p\<lparr>means3d := a_means3d, scales := a_scales, glob_scale := FloatNum a_glob_scale,
            rotations_quat := a_rotations, colors := a_colors, opacity := a_opacity,
            view_matrix := a_view, proj_matrix := a_proj, fx := FloatNum a_fx,
            fy := FloatNum a_fy, channels := IntNum a_channels\<rparr>))))))))))))))))))"

text \<open>Lines 118--142: the attributes set on \<^verbatim>\<open>ctx\<close>, the tensors saved for
  \<^verbatim>\<open>backward\<close> and the returned triple. \<open>v\<close> holds the local variables after line 89
  (\<^verbatim>\<open>colors\<close>, \<^verbatim>\<open>view_matrix\<close> and \<^verbatim>\<open>proj_matrix\<close> may have been reassigned), \<open>r\<close> the
  results of the extension.\<close>

definition save_and_return :: "fwd_params \<Rightarrow> fwd_params \<Rightarrow> fwd_ret \<Rightarrow> (int \<times> ref \<times> ref) \<times> ctx" where
  "save_and_return p v r =
     ((num_rendered r, out_img r, out_radii r),
      \<lparr>ctx_num_rendered = num_rendered r,
       ctx_glob_scale = glob_scale p,
       ctx_view_matrix = view_matrix v,
       ctx_proj_matrix = proj_matrix v,
       ctx_img_width = img_width p,
       ctx_img_height = img_height p,
       ctx_fx = fx p,
       ctx_fy = fy p,
       ctx_channels = channels p,
       saved_tensors =
         [colors v, means3d p, opacity p, scales p, rotations_quat p, out_radii r,
          final_Ts r, final_idx r, gaussian_ids_sorted r, tile_bins r, xy r, conics r]\<rparr>)"

text \<open>\<^verbatim>\<open>forward\<close>: the result is the returned triple and \<^verbatim>\<open>ctx\<close> as the function
  leaves it.\<close>

definition forward :: "cuda_lib \<Rightarrow> env \<Rightarrow> fwd_params \<Rightarrow> ((int \<times> ref \<times> ref) \<times> ctx) prog" where
  "forward lib env p =
     then_do (prepare env p) (\<lambda>(v, args).
     then_do (call_rasterize_forward lib args) (\<lambda>r.
     ret (save_and_return p v r)))"

subsection \<open>rasterize.backward\<close>

text \<open>Lines 146--188: the attributes of \<^verbatim>\<open>ctx\<close> are read, \<^verbatim>\<open>ctx.saved_tensors\<close> is
  unpacked into twelve names (which raises when there are not twelve of them), and the
  sixteen arguments of the call are put together.\<close>

definition core_backward_args :: "ctx \<Rightarrow> ref \<Rightarrow> py_error + bwd_args" where
  "core_backward_args c grad_out_img =
     (case saved_tensors c of
        [s_colors, s_means3d, s_opacities, s_scales, s_rotations_quat, s_out_radii,
         s_final_Ts, s_final_idx, s_gaussian_ids_sorted, s_tile_bins, s_xy, s_conics] \<Rightarrow>
          Inr \<lparr>b_means3d = s_means3d, b_colors = s_colors, b_scales = s_scales,
               b_grad_out_img = grad_out_img, b_img_height = ctx_img_height c,
               b_img_width = ctx_img_width c, b_fx = ctx_fx c, b_fy = ctx_fy c,
               b_channels = ctx_channels c,
               b_gaussian_ids_sorted = s_gaussian_ids_sorted,
               b_tile_bins = s_tile_bins, b_xy = s_xy, b_conics = s_conics,
               b_opacities = s_opacities, b_final_Ts = s_final_Ts,
               b_final_idx = s_final_idx\<rparr>
      | _ \<Rightarrow> Inl ValueError)"

text \<open>Lines 145--205. The first and third argument (the gradients of \<^verbatim>\<open>num_rendered\<close>
  and of \<^verbatim>\<open>out_radii\<close>) are not used. An entry of the returned tuple is \<open>None\<close> or a
  tensor.\<close>

definition backward ::
  "cuda_lib \<Rightarrow> ctx \<Rightarrow> ref option \<Rightarrow> ref \<Rightarrow> ref option \<Rightarrow> (ref option list) prog" where
  "backward lib c grad_num grad_out_img grad_out_radii w =
     (case core_backward_args c grad_out_img of
        Inl e \<Rightarrow> raise e w
      | Inr args \<Rightarrow>
          (case rasterize_backward lib args (store w) of
             (Inl e, s') \<Rightarrow> (Inl e, w\<lparr>store := s'\<rparr>)
           | (Inr (v_colors, v_opacity), s') \<Rightarrow>
               then_do (t_squeeze_last v_opacity) (\<lambda>v_opacity'.
                 ret [None, None, None, None, Some v_colors, Some v_opacity',
                      None, None, None, None, None, None]) (w\<lparr>store := s'\<rparr>)))"

subsection \<open>Properties of computations\<close>

text \<open>A later store extends an earlier one when every object of the earlier one is
  still there, unchanged.\<close>

definition extends :: "store \<Rightarrow> store \<Rightarrow> bool" where
  "extends s s' \<longleftrightarrow> used s \<le> used s' \<and> (\<forall>a<used s. cells s' a = cells s a)"

text \<open>A computation that only creates objects and calls nothing.\<close>

definition allocates_only :: "'a prog \<Rightarrow> bool" where
  "allocates_only m \<longleftrightarrow>
     (\<forall>w r w'. m w = (r, w') \<longrightarrow> extends (store w) (store w') \<and> fwd_calls w' = fwd_calls w)"

text \<open>An extension that treats the arguments of \<^verbatim>\<open>rasterize_forward\<close> as read-only: it
  creates its outputs and writes to no object that existed before the call.\<close>

definition forward_read_only :: "cuda_lib \<Rightarrow> bool" where
  "forward_read_only lib \<longleftrightarrow>
     (\<forall>args s r s'. rasterize_forward lib args s = (r, s') \<longrightarrow> extends s s')"

text \<open>The references a caller passes are objects of the store.\<close>

definition live_params :: "fwd_params \<Rightarrow> world \<Rightarrow> bool" where
  "live_params p w \<longleftrightarrow>
     means3d p < used (store w) \<and> scales p < used (store w) \<and>
     rotations_quat p < used (store w) \<and> colors p < used (store w) \<and>
     opacity p < used (store w) \<and> view_matrix p < used (store w) \<and>
     proj_matrix p < used (store w)"

text \<open>Two tensors with the same shape, dtype and elements (they may differ in device
  and memory layout).\<close>

definition same_values :: "tensor \<Rightarrow> tensor \<Rightarrow> bool" where
  "same_values t u \<longleftrightarrow> shape t = shape u \<and> dtype t = dtype u \<and> elems t = elems u"

text \<open>The tensor the extension received for one of its arguments, in the last logged
  call of \<^verbatim>\<open>cuda_lib.rasterize_forward\<close>: the object behind the reference, in the store
  at the time of the call.\<close>

definition passed :: "(fwd_params \<Rightarrow> ref) \<Rightarrow> world \<Rightarrow> tensor" where
  "passed f w = (case last (fwd_calls w) of (args, st) \<Rightarrow> cells st (f args))"

text \<open>The reference the extension received for that argument.\<close>

definition passed_ref :: "(fwd_params \<Rightarrow> ref) \<Rightarrow> world \<Rightarrow> ref" where
  "passed_ref f w = f (fst (last (fwd_calls w)))"

text \<open>A matrix with one more row, \<open>[0, 0, 0, 1]\<close>, after the rows of a 3 by 4 one;
  a tensor converted to float32 and divided by 255, in float32, on the device it is
  on.\<close>

definition padded :: "tensor \<Rightarrow> tensor \<Rightarrow> bool" where
  "padded t u \<longleftrightarrow> shape u = [4, 4] \<and> elems u = elems t @ [0, 0, 0, 1]"

definition normalized :: "tensor \<Rightarrow> tensor \<Rightarrow> bool" where
  "normalized t u \<longleftrightarrow>
     dtype u = Float32 \<and> shape u = shape t \<and>
     elems u = map (\<lambda>x. div_scalar_f32 (device t) (f32 x) 255) (elems t)"

text \<open>The first axis of a shape, when there is one.\<close>

definition leading_dim :: "tensor \<Rightarrow> nat option" where
  "leading_dim t = (case shape t of [] \<Rightarrow> None | n # _ \<Rightarrow> Some n)"

definition is_integral :: "dtype \<Rightarrow> bool" where
  "is_integral d \<longleftrightarrow> d \<in> {UInt8, Int8, Int16, Int32, Int64}"

subsection \<open>Concrete stores and a stand-in for the extension\<close>

text \<open>For running the wrapper on concrete inputs: a store that holds exactly the listed
  tensors, and a stand-in for \<^verbatim>\<open>cuda_lib\<close> that creates outputs of the declared shapes
  (\<open>radii[N]\<close>, \<open>d_colors[N,C]\<close>, \<open>d_opacity[N,1]\<close>; the others are left empty) and
  touches nothing else.\<close>

definition tens :: "nat list \<Rightarrow> dtype \<Rightarrow> device \<Rightarrow> real list \<Rightarrow> tensor" where
  "tens sh dt dv xs = \<lparr>shape = sh, dtype = dt, device = dv, contiguous = True, elems = xs\<rparr>"

definition world_of :: "tensor list \<Rightarrow> world" where
  "world_of ts =
     \<lparr>store = \<lparr>cells = (\<lambda>r. if r < length ts then ts ! r else tens [] Float32 CPU [0]),
                used = length ts\<rparr>,
      fwd_calls = []\<rparr>"

definition demo_lib :: cuda_lib where
  "demo_lib =
     \<lparr>rasterize_forward = (\<lambda>args s.
        (Inr \<lparr>num_rendered = 0, out_img = used s, out_radii = used s + 1,
              final_Ts = used s + 2, final_idx = used s + 3,
              gaussian_ids_sorted = used s + 4, tile_bins = used s + 5,
              xy = used s + 6, conics = used s + 7\<rparr>,
         \<lparr>cells = (\<lambda>r. if used s \<le> r \<and> r < used s + 8
                         then tens [hd (shape (cells s (means3d args)))] Float32 CUDA []
                         else cells s r),
          used = used s + 8\<rparr>)),
      rasterize_backward = (\<lambda>args s.
        (Inr (used s, used s + 1),
         \<lparr>cells = (cells s)
            (used s := tens (shape (cells s (b_colors args))) Float32 CUDA [],
             used s + 1 := tens [hd (shape (cells s (b_means3d args))), 1] Float32 CUDA []),
          used = used s + 2\<rparr>))\<rparr>"

definition demo_env :: env where
  "demo_env = \<lparr>means_global = None, default_tensor_device = CPU\<rparr>"

text \<open>A call with two Gaussians; the references are the positions in the store. As in
  the module's own test the global scale is the int 1 and the focal lengths are floats.\<close>

definition demo_params :: fwd_params where
  "demo_params =
     \<lparr>means3d = 0, scales = 1, glob_scale = IntNum 1, rotations_quat = 2, colors = 3,
      opacity = 4, view_matrix = 5, proj_matrix = 6, img_height = 4, img_width = 4,
      fx = FloatNum 2, fy = FloatNum 2, channels = IntNum 3\<rparr>"

text \<open>The arguments the extension gets for it when no tensor has to be converted:
  \<^verbatim>\<open>float(1)\<close> is \<open>1.0\<close>.\<close>

definition demo_args :: fwd_params where
  "demo_args = demo_params\<lparr>glob_scale := FloatNum 1\<rparr>"

definition demo_scene :: "tensor \<Rightarrow> tensor \<Rightarrow> tensor \<Rightarrow> tensor \<Rightarrow> world" where
  "demo_scene t_colors t_opacity t_view t_proj =
     world_of
       [tens [2, 3] Float32 CUDA [0, 0, 0, 1, 1, 1],
        tens [2, 3] Float32 CUDA [1, 1, 1, 1, 1, 1],
        tens [2, 4] Float32 CUDA [1, 0, 0, 0, 1, 0, 0, 0],
        t_colors, t_opacity, t_view, t_proj]"

definition identity4 :: "device \<Rightarrow> tensor" where
  "identity4 dv = tens [4, 4] Float32 dv [1, 0, 0, 0, 0, 1, 0, 0, 0, 0, 1, 0, 0, 0, 0, 1]"

definition top3x4 :: "device \<Rightarrow> tensor" where
  "top3x4 dv = tens [3, 4] Float32 dv [1, 0, 0, 0, 0, 1, 0, 0, 0, 0, 1, 8]"

text \<open>A call whose colours have three rows while the means have two.\<close>

definition mismatched_scene :: world where
  "mismatched_scene =
     demo_scene (tens [3, 3] Float32 CUDA [1, 0, 0, 0, 1, 0, 0, 0, 1])
       (tens [2, 1] Float32 CUDA [1, 1]) (identity4 CUDA) (identity4 CUDA)"

text \<open>The call of the module's own test (lines 245--301): every tensor is created on the
  CUDA device, the opacities are one-dimensional, and the view matrix is passed for both
  camera matrices.\<close>

definition harness_scene :: world where
  "harness_scene =
     demo_scene (tens [2, 3] Float32 CUDA [1, 0, 0, 0, 1, 0])
       (tens [2] Float32 CUDA [1, 1]) (identity4 CUDA) (identity4 CUDA)"

text \<open>A call with 8-bit colours, a 3 by 4 view matrix and the tensors of the caller in
  host memory.\<close>

definition cpu_scene :: world where
  "cpu_scene =
     demo_scene (tens [2, 3] UInt8 CPU [255, 0, 0, 0, 51, 0])
       (tens [2, 1] Float32 CPU [1, 1]) (top3x4 CPU) (identity4 CPU)"

text \<open>A call with 64-bit integer colours in the range 0 to 255.\<close>

definition int64_scene :: world where
  "int64_scene =
     demo_scene (tens [2, 3] Int64 CUDA [255, 0, 0, 0, 51, 0])
       (tens [2, 1] Float32 CUDA [1, 1]) (identity4 CUDA) (identity4 CUDA)"

text \<open>A call with a 2 by 4 view matrix.\<close>

definition bad_camera_scene :: world where
  "bad_camera_scene =
     demo_scene (tens [2, 3] Float32 CUDA [1, 0, 0, 0, 1, 0])
       (tens [2, 1] Float32 CUDA [1, 1])
       (tens [2, 4] Float32 CUDA [1, 0, 0, 0, 0, 1, 0, 0]) (identity4 CUDA)"

text \<open>An extension that writes to one of its arguments: it empties the colours it is
  given, in place, and then behaves as the stand-in does.\<close>

definition writing_lib :: cuda_lib where
  "writing_lib =
     demo_lib\<lparr>rasterize_forward := (\<lambda>args s.
        rasterize_forward demo_lib args
          (s\<lparr>cells := (cells s)(colors args := (cells s (colors args))\<lparr>elems := []\<rparr>)\<rparr>))\<rparr>"

text \<open>A call with opacities of shape \<open>[N, 1]\<close>, the state \<^verbatim>\<open>ctx\<close> that \<^verbatim>\<open>forward\<close> leaves
  for it with the stand-in extension (\<open>forward_column\<close> below), and the world after it.
  In the runs of \<^verbatim>\<open>backward\<close> below the image tensor (reference 7) stands for the
  gradient of the image.\<close>

definition column_scene :: world where
  "column_scene =
     demo_scene (tens [2, 3] Float32 CUDA [1, 0, 0, 0, 1, 0])
       (tens [2, 1] Float32 CUDA [1, 1]) (identity4 CUDA) (identity4 CUDA)"

definition demo_ctx :: ctx where
  "demo_ctx =
     \<lparr>ctx_num_rendered = 0, ctx_glob_scale = IntNum 1, ctx_view_matrix = 5,
      ctx_proj_matrix = 6, ctx_img_width = 4, ctx_img_height = 4, ctx_fx = FloatNum 2,
      ctx_fy = FloatNum 2, ctx_channels = IntNum 3,
      saved_tensors = [3, 0, 4, 1, 2, 8, 9, 10, 11, 12, 13, 14]\<rparr>"

definition after_forward :: world where
  "after_forward = snd (forward demo_lib demo_env demo_params column_scene)"

subsection \<open>The forward compositor\<close>

text \<open>Modelled from the spec: the Forward Compositor inside \<^verbatim>\<open>cuda_lib.rasterize_forward\<close>
  (section 4.3 of the specification), whose code is not part of the module. For one
  pixel it walks the depth-sorted Gaussians of the pixel's tile front to back. For
  Gaussian \<open>i\<close> the weight is \<open>exp(-0.5 d\<^sup>T conic d)\<close>, with \<open>d\<close> the offset of the pixel
  from the screen mean and the three numbers of the conic read as the symmetric matrix
  \<open>[[a, b], [b, c]]\<close>; \<open>alpha\<^sub>i\<close> is the weight times the opacity; then
  \<open>color += T alpha\<^sub>i color\<^sub>i\<close> and \<open>T *= 1 - alpha\<^sub>i\<close>, and the walk stops once \<open>T\<close> has
  fallen below the threshold. \<open>walk\<close> returns the states of the pixel: the initial one,
  with \<open>T = 1\<close>, and the one after each step. Arithmetic is over the reals.\<close>

record splat =
  s_mean :: "real \<times> real"
  s_conic :: "real \<times> real \<times> real"
  s_opacity :: real
  s_color :: "real list"

definition gauss_weight :: "splat \<Rightarrow> real \<times> real \<Rightarrow> real" where
  "gauss_weight g px =
     (case (s_conic g, s_mean g, px) of
        ((a, b, c), (mx, my), (x, y)) \<Rightarrow>
          exp (- (1 / 2) *
            (a * (x - mx) * (x - mx) + 2 * b * (x - mx) * (y - my) + c * (y - my) * (y - my))))"

definition alpha :: "splat \<Rightarrow> real \<times> real \<Rightarrow> real" where
  "alpha g px = gauss_weight g px * s_opacity g"

record pixel_state =
  acc_color :: "real list"
  transmittance :: real
  last_idx :: nat

definition initial_state :: "nat \<Rightarrow> pixel_state" where
  "initial_state C = \<lparr>acc_color = replicate C 0, transmittance = 1, last_idx = 0\<rparr>"

definition blend :: "real \<times> real \<Rightarrow> nat \<Rightarrow> splat \<Rightarrow> pixel_state \<Rightarrow> pixel_state" where
  "blend px i g st =
     \<lparr>acc_color = map2 (\<lambda>acc ci. acc + transmittance st * alpha g px * ci)
                    (acc_color st) (s_color g),
      transmittance = transmittance st * (1 - alpha g px),
      last_idx = i\<rparr>"

fun walk :: "real \<Rightarrow> real \<times> real \<Rightarrow> nat \<Rightarrow> splat list \<Rightarrow> pixel_state \<Rightarrow> pixel_state list" where
  "walk thr px i [] st = [st]"
| "walk thr px i (g # gs) st =
     st # (let st' = blend px i g st
           in if transmittance st' < thr then [st'] else walk thr px (Suc i) gs st')"

text \<open>Modelled from the spec: the invariant "opacity, alpha in [0,1]" of its section 3, for
  one Gaussian at one pixel.\<close>

definition valid_at :: "real \<times> real \<Rightarrow> splat \<Rightarrow> bool" where
  "valid_at px g \<longleftrightarrow>
     0 \<le> s_opacity g \<and> s_opacity g \<le> 1 \<and> 0 \<le> alpha g px \<and> alpha g px \<le> 1"

text \<open>Two Gaussians centred on the pixel \<open>(0, 0)\<close>, with opacities 1/2 and 1/4.\<close>

definition half_splat :: splat where
  "half_splat = \<lparr>s_mean = (0, 0), s_conic = (1, 0, 1), s_opacity = 1 / 2, s_color = [1, 0, 0]\<rparr>"

definition quarter_splat :: splat where
  "quarter_splat = \<lparr>s_mean = (0, 0), s_conic = (1, 0, 1), s_opacity = 1 / 4, s_color = [0, 1, 0]\<rparr>"

text \<open>A call with a 3 by 4 view matrix on the CUDA device.\<close>

definition cuda_3x4_scene :: world where
  "cuda_3x4_scene =
     demo_scene (tens [2, 3] Float32 CUDA [1, 0, 0, 0, 1, 0])
       (tens [2, 1] Float32 CUDA [1, 1]) (top3x4 CUDA) (identity4 CUDA)"

section \<open>Proofs\<close>

subsection \<open>Rounding at concrete values\<close>

lemma pow2_pos: "0 < pow2 e"
  by (simp add: pow2_def)

lemma pow2_powr: "pow2 e = 2 powr (of_int e)"
  by (simp add: pow2_def powr_int)

lemma floor_log2:
  assumes "pow2 e \<le> \<bar>x\<bar>" and "\<bar>x\<bar> < pow2 (e + 1)"
  shows "\<lfloor>log 2 \<bar>x\<bar>\<rfloor> = e"
proof (rule floor_unique)
  have pos: "0 < \<bar>x\<bar>" using assms(1) pow2_pos [of e] by linarith
  from assms(1) pos show "of_int e \<le> log 2 \<bar>x\<bar>"
    by (simp add: pow2_powr le_log_iff)
  from assms(2) pos show "log 2 \<bar>x\<bar> < of_int e + 1"
    by (simp add: pow2_powr log_less_iff)
qed

lemma round_binary_eval:
  assumes "pow2 e \<le> \<bar>x\<bar>" and "\<bar>x\<bar> < pow2 (e + 1)" and "emin \<le> e"
  shows "round_binary p emin x =
           pow2 (e - p + 1) * of_int (round_half_even (x / pow2 (e - p + 1)))"
proof -
  have "x \<noteq> 0" using assms(1) pow2_pos [of e] by auto
  with floor_log2 [OF assms(1,2)] assms(3) show ?thesis
    by (simp add: round_binary_def Let_def max_def)
qed

lemma round_half_even_int: "round_half_even (of_int n) = n"
  by (simp add: round_half_even_def)

lemma f32_zero: "f32 0 = 0"
  by (simp add: f32_def round_binary_def)

lemma f32_one: "f32 1 = 1"
proof -
  have "f32 1 = pow2 (- 23) * of_int (round_half_even (1 / pow2 (- 23)))"
    unfolding f32_def using round_binary_eval [of 0 1 "- 126" 24]
    by (simp add: pow2_def)
  also have "1 / pow2 (- 23) = (of_int 8388608 :: real)" by (simp add: pow2_def)
  finally show ?thesis by (simp only: round_half_even_int) (simp add: pow2_def)
qed

lemma f32_51: "f32 51 = 51"
proof -
  have "f32 51 = pow2 (- 18) * of_int (round_half_even (51 / pow2 (- 18)))"
    unfolding f32_def using round_binary_eval [of 5 51 "- 126" 24]
    by (simp add: pow2_def)
  also have "51 / pow2 (- 18) = (of_int 13369344 :: real)" by (simp add: pow2_def)
  finally show ?thesis by (simp only: round_half_even_int) (simp add: pow2_def)
qed

lemma f32_255: "f32 255 = 255"
proof -
  have "f32 255 = pow2 (- 16) * of_int (round_half_even (255 / pow2 (- 16)))"
    unfolding f32_def using round_binary_eval [of 7 255 "- 126" 24]
    by (simp add: pow2_def)
  also have "255 / pow2 (- 16) = (of_int 16711680 :: real)" by (simp add: pow2_def)
  finally show ?thesis by (simp only: round_half_even_int) (simp add: pow2_def)
qed

lemma f32_fifth: "f32 (1 / 5) = 13421773 / 67108864"
proof -
  have "f32 (1 / 5) = pow2 (- 26) * of_int (round_half_even ((1 / 5) / pow2 (- 26)))"
    unfolding f32_def using round_binary_eval [of "- 3" "1 / 5" "- 126" 24]
    by (simp add: pow2_def)
  also have "(1 / 5) / pow2 (- 26) = (67108864 / 5 :: real)" by (simp add: pow2_def)
  also have "\<lfloor>67108864 / 5 :: real\<rfloor> = 13421772" by (rule floor_unique) simp_all
  then have "round_half_even (67108864 / 5) = 13421773"
    by (simp add: round_half_even_def)
  finally show ?thesis by (simp add: pow2_def)
qed

text \<open>The quotient of 51 by 255 in float32: divided in host memory, multiplied by the
  rounded reciprocal on the CUDA device. The two differ in the last bit.\<close>

lemma f32_inv255: "f32 (1 / 255) = 8421505 / 2147483648"
proof -
  have "f32 (1 / 255) = pow2 (- 31) * of_int (round_half_even ((1 / 255) / pow2 (- 31)))"
    unfolding f32_def using round_binary_eval [of "- 8" "1 / 255" "- 126" 24]
    by (simp add: pow2_def)
  also have "(1 / 255) / pow2 (- 31) = (2147483648 / 255 :: real)" by (simp add: pow2_def)
  also have "\<lfloor>2147483648 / 255 :: real\<rfloor> = 8421504" by (rule floor_unique) simp_all
  then have "round_half_even (2147483648 / 255) = 8421505"
    by (simp add: round_half_even_def)
  finally show ?thesis by (simp add: pow2_def)
qed

lemma div_scalar_f32_cuda_51: "div_scalar_f32 CUDA 51 255 = 13421774 / 67108864"
proof -
  have "f32 (429496755 / 2147483648) =
      pow2 (- 26) * of_int (round_half_even ((429496755 / 2147483648) / pow2 (- 26)))"
    unfolding f32_def using round_binary_eval [of "- 3" "429496755 / 2147483648" "- 126" 24]
    by (simp add: pow2_def)
  also have "(429496755 / 2147483648) / pow2 (- 26) = (429496755 / 32 :: real)"
    by (simp add: pow2_def)
  also have "\<lfloor>429496755 / 32 :: real\<rfloor> = 13421773" by (rule floor_unique) simp_all
  then have "round_half_even (429496755 / 32) = 13421774"
    by (simp add: round_half_even_def)
  finally have "f32 (429496755 / 2147483648) = 13421774 / 67108864" by (simp add: pow2_def)
  then show ?thesis by (simp add: div_scalar_f32_def f32_inv255)
qed

lemma div_scalar_f32_cpu_51: "div_scalar_f32 CPU 51 255 = 13421773 / 67108864"
  by (simp add: div_scalar_f32_def f32_fifth)

lemma f64_one: "f64 1 = 1"
proof -
  have "f64 1 = pow2 (- 52) * of_int (round_half_even (1 / pow2 (- 52)))"
    unfolding f64_def using round_binary_eval [of 0 1 "- 1022" 53]
    by (simp add: pow2_def)
  also have "1 / pow2 (- 52) = (of_int 4503599627370496 :: real)" by (simp add: pow2_def)
  finally show ?thesis by (simp only: round_half_even_int) (simp add: pow2_def)
qed

lemma max_f64_one: "\<not> max_f64 < 1"
  by (simp add: max_f64_def pow2_def)

lemma py_float_one: "py_float (IntNum 1) = Inr 1"
  by (simp add: f64_one max_f64_one)

text \<open>An int beyond the range of a float: \<^verbatim>\<open>float(2 ** 1024)\<close> raises.\<close>

lemma pow2_add: "pow2 (a + b) = pow2 a * pow2 b"
  by (simp add: pow2_powr powr_add)

lemma f64_pow2_1024: "f64 (pow2 1024) = pow2 1024"
proof -
  have a: "pow2 1024 \<le> \<bar>pow2 1024\<bar>" using pow2_pos [of 1024] by simp
  have "pow2 1025 = pow2 1024 * 2" using pow2_add [of 1024 1] by (simp add: pow2_def)
  then have b: "\<bar>pow2 1024\<bar> < pow2 (1024 + 1)" using pow2_pos [of 1024] by simp
  have c: "pow2 1024 = pow2 972 * pow2 52" using pow2_add [of 972 52] by simp
  have d: "pow2 52 = of_int 4503599627370496" by (simp add: pow2_def)
  have "f64 (pow2 1024) = pow2 972 * of_int (round_half_even (pow2 1024 / pow2 972))"
    unfolding f64_def using round_binary_eval [OF a b, of "- 1022" 53] by simp
  also have "pow2 1024 / pow2 972 = of_int 4503599627370496"
    using pow2_pos [of 972] by (simp add: c d)
  finally show ?thesis by (simp only: round_half_even_int c d)
qed

lemma py_float_overflow: "py_float (IntNum (2 ^ 1024)) = Inl OverflowError"
proof -
  have e: "(of_int (2 ^ 1024) :: real) = pow2 1024" by (simp add: pow2_def)
  have "pow2 1024 = pow2 1023 * 2" using pow2_add [of 1023 1] by (simp add: pow2_def)
  moreover have "pow2 (- 52) > 0" by (rule pow2_pos)
  ultimately have "max_f64 < pow2 1024"
    using pow2_pos [of 1023] by (simp add: max_f64_def algebra_simps)
  then have "max_f64 < \<bar>f64 (pow2 1024)\<bar>" using pow2_pos [of 1024] by (simp add: f64_pow2_1024)
  then show ?thesis by (simp only: py_float.simps e if_True)
qed

subsection \<open>Sequencing, stores that grow\<close>

lemma then_do_Inl: "m w = (Inl e, w') \<Longrightarrow> then_do m f w = (Inl e, w')"
  by (simp add: then_do_def)

lemma then_do_Inr: "m w = (Inr x, w') \<Longrightarrow> then_do m f w = f x w'"
  by (simp add: then_do_def)

lemma then_do_InrE:
  assumes "then_do m f w = (Inr y, w'')"
  obtains x w' where "m w = (Inr x, w')" and "f x w' = (Inr y, w'')"
  using assms by (auto simp: then_do_def split: prod.splits sum.splits)

lemma extends_refl: "extends s s"
  by (simp add: extends_def)

lemma extends_trans: "extends s s' \<Longrightarrow> extends s' s'' \<Longrightarrow> extends s s''"
  by (auto simp: extends_def)

lemma extends_used: "extends s s' \<Longrightarrow> r < used s \<Longrightarrow> r < used s'"
  by (auto simp: extends_def)

lemma extends_cell: "extends (store w) (store w') \<Longrightarrow> r < used (store w) \<Longrightarrow> tensor_at w' r = tensor_at w r"
  by (auto simp: extends_def tensor_at_def)

lemma allocates_only_ret: "allocates_only (ret x)"
  by (simp add: allocates_only_def ret_def extends_refl)

lemma allocates_only_raise: "allocates_only (raise e)"
  by (simp add: allocates_only_def raise_def extends_refl)

lemma allocates_only_lift: "allocates_only (lift r)"
  by (simp add: allocates_only_def lift_def extends_refl)

lemma allocates_only_new_tensor: "allocates_only (new_tensor t)"
  by (auto simp: allocates_only_def new_tensor_def extends_def)

lemma allocates_only_then_do:
  assumes "allocates_only m" and "\<And>x. allocates_only (f x)"
  shows "allocates_only (then_do m f)"
  unfolding allocates_only_def
proof (intro allI impI)
  fix w r w'
  assume run: "then_do m f w = (r, w')"
  obtain r1 w1 where m: "m w = (r1, w1)" by (cases "m w")
  from assms(1) m have e1: "extends (store w) (store w1)" "fwd_calls w1 = fwd_calls w"
    by (auto simp: allocates_only_def)
  show "extends (store w) (store w') \<and> fwd_calls w' = fwd_calls w"
  proof (cases r1)
    case (Inl e)
    with run m have "w' = w1" by (simp add: then_do_def)
    with e1 show ?thesis by simp
  next
    case (Inr x)
    with run m have "f x w1 = (r, w')" by (simp add: then_do_def)
    with assms(2) [of x] have "extends (store w1) (store w')" "fwd_calls w' = fwd_calls w1"
      by (auto simp: allocates_only_def)
    with e1 show ?thesis by (auto intro: extends_trans)
  qed
qed

lemma allocates_onlyI:
  "(\<And>w. \<exists>m'. allocates_only m' \<and> m w = m' w) \<Longrightarrow> allocates_only m"
  unfolding allocates_only_def by metis

lemma allocates_only_t_float: "allocates_only (t_float r)"
  by (rule allocates_onlyI)
     (auto simp: t_float_def Let_def intro: allocates_only_ret allocates_only_new_tensor)

lemma allocates_only_t_div: "allocates_only (t_div r k)"
  by (rule allocates_onlyI)
     (auto simp: t_div_def Let_def intro: allocates_only_new_tensor)

lemma allocates_only_t_contiguous: "allocates_only (t_contiguous r)"
  by (rule allocates_onlyI)
     (auto simp: t_contiguous_def Let_def intro: allocates_only_ret allocates_only_new_tensor)

lemma allocates_only_t_cuda: "allocates_only (t_cuda r)"
  by (rule allocates_onlyI)
     (auto simp: t_cuda_def Let_def intro: allocates_only_ret allocates_only_new_tensor)

lemma allocates_only_to_cuda: "allocates_only (to_cuda r)"
  unfolding to_cuda_def
  by (intro allocates_only_then_do allocates_only_t_contiguous allocates_only_t_cuda)

lemma allocates_only_check_batch: "allocates_only (check_batch env p)"
  by (rule allocates_onlyI) (auto simp: check_batch_def intro: allocates_only_lift)

lemma allocates_only_pad_matrix: "allocates_only (pad_matrix env m d)"
  by (rule allocates_onlyI)
     (auto simp: pad_matrix_def split: sum.splits
           intro: allocates_only_ret allocates_only_raise allocates_only_new_tensor)

lemma allocates_only_assert_4x4: "allocates_only (assert_4x4 m)"
  by (rule allocates_onlyI)
     (auto simp: assert_4x4_def intro: allocates_only_ret allocates_only_raise)

lemma allocates_only_normalize_colors: "allocates_only (normalize_colors c)"
proof (rule allocates_onlyI)
  fix w
  have a: "allocates_only (then_do (t_float c) (\<lambda>f. t_div f 255))"
    by (intro allocates_only_then_do allocates_only_t_float allocates_only_t_div)
  show "\<exists>m'. allocates_only m' \<and> normalize_colors c w = m' w"
  proof (cases "dtype (tensor_at w c) = UInt8")
    case True
    with a show ?thesis by (intro exI [of _ "then_do (t_float c) (\<lambda>f. t_div f 255)"]) (simp add: normalize_colors_def)
  next
    case False
    with allocates_only_ret [of c] show ?thesis
      by (intro exI [of _ "ret c"]) (simp add: normalize_colors_def)
  qed
qed

lemma allocates_only_prepare: "allocates_only (prepare env p)"
  unfolding prepare_def
  by (intro allocates_only_then_do allocates_only_check_batch allocates_only_pad_matrix
        allocates_only_assert_4x4 allocates_only_normalize_colors allocates_only_to_cuda
        allocates_only_lift allocates_only_ret)

subsection \<open>What each step of \<open>prepare\<close> yields\<close>

lemma to_cuda_value:
  assumes "r < used (store w)" and "to_cuda r w = (Inr r', w')"
  shows "r' < used (store w') \<and> same_values (tensor_at w' r') (tensor_at w r)"
  using assms
  by (auto simp: to_cuda_def then_do_def t_contiguous_def t_cuda_def new_tensor_def ret_def
        Let_def tensor_at_def same_values_def split: if_splits)

lemma pad_matrix_value:
  assumes "m < used (store w)" and "pad_matrix env m d w = (Inr m', w')"
  shows "m' < used (store w') \<and>
         (if shape (tensor_at w m) = [3, 4] then padded (tensor_at w m) (tensor_at w' m')
          else m' = m \<and> w' = w)"
  using assms
  by (auto simp: pad_matrix_def legacy_Tensor_def torch_cat0_def unsqueeze0_def new_tensor_def
        ret_def raise_def tensor_at_def padded_def split: if_splits sum.splits)

lemma normalize_colors_value:
  assumes "c < used (store w)" and "normalize_colors c w = (Inr c', w')"
  shows "c' < used (store w') \<and>
         (if dtype (tensor_at w c) = UInt8 then normalized (tensor_at w c) (tensor_at w' c')
          else c' = c \<and> w' = w)"
  using assms
  by (auto simp: normalize_colors_def then_do_def t_float_def t_div_def new_tensor_def ret_def
        Let_def tensor_at_def normalized_def split: if_splits)

lemma assert_4x4_value:
  assumes "assert_4x4 m w = (Inr u, w')"
  shows "w' = w \<and> shape (tensor_at w m) = [4, 4]"
  using assms by (auto simp: assert_4x4_def ret_def raise_def split: if_splits)

lemma check_batch_value:
  assumes "check_batch env p w = (Inr u, w')"
  shows "w' = w"
  using assms by (auto simp: check_batch_def lift_def)

lemma prepare_steps:
  assumes "prepare env p w = (Inr (v, args), w')"
  shows "\<exists>u0 w0 proj w1 view w2 u3 w3 u4 w4 cols w5 a_means3d w6 a_scales w7 a_rotations w8
           a_colors w9 a_opacity w10 a_view w11 a_proj a_glob_scale a_fx a_fy a_channels.
           check_batch env p w = (Inr u0, w0) \<and>
           pad_matrix env (proj_matrix p) (proj_matrix p) w0 = (Inr proj, w1) \<and>
           pad_matrix env (view_matrix p) proj w1 = (Inr view, w2) \<and>
           assert_4x4 proj w2 = (Inr u3, w3) \<and>
           assert_4x4 view w3 = (Inr u4, w4) \<and>
           normalize_colors (colors p) w4 = (Inr cols, w5) \<and>
           to_cuda (means3d p) w5 = (Inr a_means3d, w6) \<and>
           to_cuda (scales p) w6 = (Inr a_scales, w7) \<and>
           to_cuda (rotations_quat p) w7 = (Inr a_rotations, w8) \<and>
           to_cuda cols w8 = (Inr a_colors, w9) \<and>
           to_cuda (opacity p) w9 = (Inr a_opacity, w10) \<and>
           to_cuda view w10 = (Inr a_view, w11) \<and>
           to_cuda proj w11 = (Inr a_proj, w') \<and>
           py_float (glob_scale p) = Inr a_glob_scale \<and>
           py_float (fx p) = Inr a_fx \<and> py_float (fy p) = Inr a_fy \<and>
           py_int (channels p) = Inr a_channels \<and>
           v = p\<lparr>colors := cols, view_matrix := view, proj_matrix := proj\<rparr> \<and>
           args = p\<lparr>means3d := a_means3d, scales := a_scales,
                    glob_scale := FloatNum a_glob_scale, rotations_quat := a_rotations,
                    colors := a_colors, opacity := a_opacity, view_matrix := a_view,
                    proj_matrix := a_proj, fx := FloatNum a_fx, fy := FloatNum a_fy,
                    channels := IntNum a_channels\<rparr>"
  using assms unfolding prepare_def
  by (elim then_do_InrE) (simp add: ret_def lift_def)

lemma allocates_onlyD:
  "allocates_only m \<Longrightarrow> m w = (r, w') \<Longrightarrow> extends (store w) (store w')"
  by (simp add: allocates_only_def)

lemma to_cuda_step:
  assumes "extends (store w) (store w1)" and "r < used (store w1)"
    and "to_cuda r w1 = (Inr r', w2)" and "extends (store w2) (store w')"
  shows "extends (store w) (store w2)"
    and "same_values (tensor_at w' r') (tensor_at w1 r)"
proof -
  from assms(3) have e: "extends (store w1) (store w2)"
    by (rule allocates_onlyD [OF allocates_only_to_cuda])
  with assms(1) show "extends (store w) (store w2)" by (rule extends_trans)
  from to_cuda_value [OF assms(2,3)]
  have "r' < used (store w2)" and sv: "same_values (tensor_at w2 r') (tensor_at w1 r)"
    by simp_all
  with assms(4) have "tensor_at w' r' = tensor_at w2 r'" by (simp add: extends_cell)
  with sv show "same_values (tensor_at w' r') (tensor_at w1 r)" by simp
qed

lemma prepare_Inr:
  assumes live: "live_params p w" and run: "prepare env p w = (Inr (v, args), w')"
  shows "(if shape (tensor_at w (proj_matrix p)) = [3, 4]
          then padded (tensor_at w (proj_matrix p)) (tensor_at w' (proj_matrix args))
          else shape (tensor_at w (proj_matrix p)) = [4, 4] \<and>
               same_values (tensor_at w' (proj_matrix args)) (tensor_at w (proj_matrix p)))"
      (is ?PROJ)
    and "(if shape (tensor_at w (view_matrix p)) = [3, 4]
          then padded (tensor_at w (view_matrix p)) (tensor_at w' (view_matrix args))
          else shape (tensor_at w (view_matrix p)) = [4, 4] \<and>
               same_values (tensor_at w' (view_matrix args)) (tensor_at w (view_matrix p)))"
      (is ?VIEW)
    and "(if dtype (tensor_at w (colors p)) = UInt8
          then normalized (tensor_at w (colors p)) (tensor_at w' (colors args))
          else same_values (tensor_at w' (colors args)) (tensor_at w (colors p)))"
      (is ?COLS)
    and "same_values (tensor_at w' (means3d args)) (tensor_at w (means3d p))" (is ?M)
    and "same_values (tensor_at w' (scales args)) (tensor_at w (scales p))" (is ?S)
    and "same_values (tensor_at w' (rotations_quat args)) (tensor_at w (rotations_quat p))"
      (is ?R)
    and "same_values (tensor_at w' (opacity args)) (tensor_at w (opacity p))" (is ?O)
proof -
  from live have lv: "means3d p < used (store w)" "scales p < used (store w)"
    "rotations_quat p < used (store w)" "colors p < used (store w)"
    "opacity p < used (store w)" "view_matrix p < used (store w)"
    "proj_matrix p < used (store w)"
    by (simp_all add: live_params_def)
  from prepare_steps [OF run]
  obtain u0 w0 proj w1 view w2 u3 w3 u4 w4 cols w5 a_means3d w6 a_scales w7 a_rotations w8
      a_colors w9 a_opacity w10 a_view w11 a_proj a_glob_scale a_fx a_fy a_channels
    where s0: "check_batch env p w = (Inr u0, w0)"
      and s1: "pad_matrix env (proj_matrix p) (proj_matrix p) w0 = (Inr proj, w1)"
      and s2: "pad_matrix env (view_matrix p) proj w1 = (Inr view, w2)"
      and s3: "assert_4x4 proj w2 = (Inr u3, w3)"
      and s4: "assert_4x4 view w3 = (Inr u4, w4)"
      and s5: "normalize_colors (colors p) w4 = (Inr cols, w5)"
      and s6: "to_cuda (means3d p) w5 = (Inr a_means3d, w6)"
      and s7: "to_cuda (scales p) w6 = (Inr a_scales, w7)"
      and s8: "to_cuda (rotations_quat p) w7 = (Inr a_rotations, w8)"
      and s9: "to_cuda cols w8 = (Inr a_colors, w9)"
      and s10: "to_cuda (opacity p) w9 = (Inr a_opacity, w10)"
      and s11: "to_cuda view w10 = (Inr a_view, w11)"
      and s12: "to_cuda proj w11 = (Inr a_proj, w')"
      and args: "args = p\<lparr>means3d := a_means3d, scales := a_scales,
                    glob_scale := FloatNum a_glob_scale, rotations_quat := a_rotations,
                    colors := a_colors, opacity := a_opacity, view_matrix := a_view,
                    proj_matrix := a_proj, fx := FloatNum a_fx, fy := FloatNum a_fy,
                    channels := IntNum a_channels\<rparr>"
    by (elim exE conjE) (rule that)
  have w0: "w0 = w" using s0 by (rule check_batch_value)
  have w3: "w3 = w2" and p44: "shape (tensor_at w2 proj) = [4, 4]"
    using assert_4x4_value [OF s3] by simp_all
  have w4: "w4 = w2" and v44: "shape (tensor_at w2 view) = [4, 4]"
    using assert_4x4_value [OF s4] w3 by simp_all
  note s1 = s1 [unfolded w0] and s5 = s5 [unfolded w4]
  text \<open>the stores along the way, each extending the one before\<close>
  have e01: "extends (store w) (store w1)"
    using s1 by (rule allocates_onlyD [OF allocates_only_pad_matrix])
  have e12: "extends (store w1) (store w2)"
    using s2 by (rule allocates_onlyD [OF allocates_only_pad_matrix])
  have e25: "extends (store w2) (store w5)"
    using s5 by (rule allocates_onlyD [OF allocates_only_normalize_colors])
  have e56: "extends (store w5) (store w6)"
    using s6 by (rule allocates_onlyD [OF allocates_only_to_cuda])
  have e67: "extends (store w6) (store w7)"
    using s7 by (rule allocates_onlyD [OF allocates_only_to_cuda])
  have e78: "extends (store w7) (store w8)"
    using s8 by (rule allocates_onlyD [OF allocates_only_to_cuda])
  have e89: "extends (store w8) (store w9)"
    using s9 by (rule allocates_onlyD [OF allocates_only_to_cuda])
  have e910: "extends (store w9) (store w10)"
    using s10 by (rule allocates_onlyD [OF allocates_only_to_cuda])
  have e1011: "extends (store w10) (store w11)"
    using s11 by (rule allocates_onlyD [OF allocates_only_to_cuda])
  have e11': "extends (store w11) (store w')"
    using s12 by (rule allocates_onlyD [OF allocates_only_to_cuda])
  have e10': "extends (store w10) (store w')" using e1011 e11' by (rule extends_trans)
  have e9': "extends (store w9) (store w')" using e910 e10' by (rule extends_trans)
  have e8': "extends (store w8) (store w')" using e89 e9' by (rule extends_trans)
  have e7': "extends (store w7) (store w')" using e78 e8' by (rule extends_trans)
  have e6': "extends (store w6) (store w')" using e67 e7' by (rule extends_trans)
  have e02: "extends (store w) (store w2)" using e01 e12 by (rule extends_trans)
  have e05: "extends (store w) (store w5)" using e02 e25 by (rule extends_trans)
  have e06: "extends (store w) (store w6)" using e05 e56 by (rule extends_trans)
  have e07: "extends (store w) (store w7)" using e06 e67 by (rule extends_trans)
  have e08: "extends (store w) (store w8)" using e07 e78 by (rule extends_trans)
  have e09: "extends (store w) (store w9)" using e08 e89 by (rule extends_trans)
  have e28: "extends (store w2) (store w8)"
    using e25 e56 e67 e78 by (blast intro: extends_trans)
  have e210: "extends (store w2) (store w10)"
    using e28 e89 e910 by (blast intro: extends_trans)
  have e211: "extends (store w2) (store w11)" using e210 e1011 by (rule extends_trans)
  have e58: "extends (store w5) (store w8)" using e56 e67 e78 by (blast intro: extends_trans)
  text \<open>the projection matrix\<close>
  from pad_matrix_value [OF lv(7) s1]
  have proj_live: "proj < used (store w1)"
    and proj_val: "if shape (tensor_at w (proj_matrix p)) = [3, 4]
      then padded (tensor_at w (proj_matrix p)) (tensor_at w1 proj)
      else proj = proj_matrix p \<and> w1 = w"
    by simp_all
  have proj_live2: "proj < used (store w2)" using e12 proj_live by (rule extends_used)
  have proj_12: "tensor_at w2 proj = tensor_at w1 proj" using e12 proj_live by (rule extends_cell)
  have "same_values (tensor_at w' a_proj) (tensor_at w11 proj)"
    using e211 extends_used [OF e211 proj_live2] s12 extends_refl
    by (rule to_cuda_step(2))
  moreover have "tensor_at w11 proj = tensor_at w2 proj"
    using e211 proj_live2 by (rule extends_cell)
  ultimately have proj_fin: "same_values (tensor_at w' a_proj) (tensor_at w1 proj)"
    and proj_fin44: "shape (tensor_at w1 proj) = [4, 4]"
    using proj_12 p44 by simp_all
  show ?PROJ
    using proj_val proj_fin proj_fin44
    by (auto simp: args padded_def same_values_def)
  text \<open>the view matrix\<close>
  have view_live1: "view_matrix p < used (store w1)" using e01 lv(6) by (rule extends_used)
  have view_01: "tensor_at w1 (view_matrix p) = tensor_at w (view_matrix p)"
    using e01 lv(6) by (rule extends_cell)
  from pad_matrix_value [OF view_live1 s2, unfolded view_01]
  have view_live: "view < used (store w2)"
    and view_val: "if shape (tensor_at w (view_matrix p)) = [3, 4]
      then padded (tensor_at w (view_matrix p)) (tensor_at w2 view)
      else view = view_matrix p \<and> w2 = w1"
    by simp_all
  have "same_values (tensor_at w' a_view) (tensor_at w10 view)"
    using e210 extends_used [OF e210 view_live] s11 e11'
    by (rule to_cuda_step(2))
  moreover have "tensor_at w10 view = tensor_at w2 view"
    using e210 view_live by (rule extends_cell)
  ultimately have view_fin: "same_values (tensor_at w' a_view) (tensor_at w2 view)"
    by simp
  show ?VIEW
    using view_val view_fin v44 view_01
    by (auto simp: args padded_def same_values_def)
  text \<open>the colours\<close>
  have col_live2: "colors p < used (store w2)" using e02 lv(4) by (rule extends_used)
  have col_02: "tensor_at w2 (colors p) = tensor_at w (colors p)"
    using e02 lv(4) by (rule extends_cell)
  from normalize_colors_value [OF col_live2 s5, unfolded col_02]
  have cols_live: "cols < used (store w5)"
    and cols_val: "if dtype (tensor_at w (colors p)) = UInt8
      then normalized (tensor_at w (colors p)) (tensor_at w5 cols)
      else cols = colors p \<and> w5 = w2"
    by simp_all
  have "same_values (tensor_at w' a_colors) (tensor_at w8 cols)"
    using e58 extends_used [OF e58 cols_live] s9 e9'
    by (rule to_cuda_step(2))
  moreover have "tensor_at w8 cols = tensor_at w5 cols"
    using e58 cols_live by (rule extends_cell)
  ultimately have cols_fin: "same_values (tensor_at w' a_colors) (tensor_at w5 cols)"
    by simp
  show ?COLS
    using cols_val cols_fin col_02
    by (auto simp: args normalized_def same_values_def)
  text \<open>the tensors that are only moved\<close>
  have "same_values (tensor_at w' a_means3d) (tensor_at w5 (means3d p))"
    using e05 extends_used [OF e05 lv(1)] s6 e6' by (rule to_cuda_step(2))
  then show ?M by (simp add: args extends_cell [OF e05 lv(1)])
  have "same_values (tensor_at w' a_scales) (tensor_at w6 (scales p))"
    using e06 extends_used [OF e06 lv(2)] s7 e7' by (rule to_cuda_step(2))
  then show ?S by (simp add: args extends_cell [OF e06 lv(2)])
  have "same_values (tensor_at w' a_rotations) (tensor_at w7 (rotations_quat p))"
    using e07 extends_used [OF e07 lv(3)] s8 e8' by (rule to_cuda_step(2))
  then show ?R by (simp add: args extends_cell [OF e07 lv(3)])
  have "same_values (tensor_at w' a_opacity) (tensor_at w9 (opacity p))"
    using e09 extends_used [OF e09 lv(5)] s10 e10' by (rule to_cuda_step(2))
  then show ?O by (simp add: args extends_cell [OF e09 lv(5)])
qed

lemma call_rasterize_forward_calls:
  "call_rasterize_forward lib args w = (r, w') \<Longrightarrow>
   fwd_calls w' = fwd_calls w @ [(args, store w)]"
  by (cases "rasterize_forward lib args (store w)") (auto simp: call_rasterize_forward_def)

lemma then_do_ret_world:
  "then_do m (\<lambda>x. ret (g x)) w = (r, w') \<Longrightarrow> \<exists>r1. m w = (r1, w')"
  by (cases "m w") (auto simp: then_do_def ret_def split: sum.splits)

lemma forward_after_prepare:
  "prepare env p w = (Inr (v, args), w1) \<Longrightarrow>
   forward lib env p w =
     then_do (call_rasterize_forward lib args) (\<lambda>r. ret (save_and_return p v r)) w1"
  by (simp add: forward_def then_do_def)

lemma forward_prepare_fails:
  "prepare env p w = (Inl e, w1) \<Longrightarrow> forward lib env p w = (Inl e, w1)"
  by (simp add: forward_def then_do_def)

subsection \<open>The checks on the batch dimension\<close>

lemma py_ne_method_int: "py_ne (getattr_dim t) (PyInt k)"
  by (simp add: getattr_dim_def)

lemma check_items_mismatch:
  "\<exists>(name, t) \<in> set items. leading_dim t \<noteq> leading_dim m3d \<Longrightarrow>
   \<exists>e. check_items env m3d items = Inl e"
proof (induction items)
  case Nil
  then show ?case by simp
next
  case (Cons item items)
  obtain name input where item: "item = (name, input)" by (cases item)
  show ?case
  proof (cases "leading_dim input = leading_dim m3d")
    case False
    then show ?thesis
      by (auto simp: item shape0_def leading_dim_def split: list.splits)
  next
    case True
    with Cons.prems item have "\<exists>(name, t) \<in> set items. leading_dim t \<noteq> leading_dim m3d"
      by auto
    from Cons.IH [OF this] obtain e where "check_items env m3d items = Inl e" ..
    then show ?thesis
      by (auto simp: item shape0_def py_ne_method_int split: list.splits)
  qed
qed

subsection \<open>Concrete stores, and the log of calls\<close>

lemma demo_tensor_at:
  "tensor_at (demo_scene c opa v pr) (colors demo_params) = c"
  "tensor_at (demo_scene c opa v pr) (opacity demo_params) = opa"
  "tensor_at (demo_scene c opa v pr) (view_matrix demo_params) = v"
  "tensor_at (demo_scene c opa v pr) (proj_matrix demo_params) = pr"
  "tensor_at (demo_scene c opa v pr) (means3d demo_params) = tens [2, 3] Float32 CUDA [0, 0, 0, 1, 1, 1]"
  "tensor_at (demo_scene c opa v pr) (scales demo_params) = tens [2, 3] Float32 CUDA [1, 1, 1, 1, 1, 1]"
  "tensor_at (demo_scene c opa v pr) (rotations_quat demo_params) = tens [2, 4] Float32 CUDA [1, 0, 0, 0, 1, 0, 0, 0]"
  by (simp_all add: demo_scene_def world_of_def demo_params_def demo_args_def tensor_at_def)

lemma demo_cells:
  "cells (store (demo_scene c opa v pr)) 0 = tens [2, 3] Float32 CUDA [0, 0, 0, 1, 1, 1]"
  "cells (store (demo_scene c opa v pr)) (Suc 0) = tens [2, 3] Float32 CUDA [1, 1, 1, 1, 1, 1]"
  "cells (store (demo_scene c opa v pr)) 2 = tens [2, 4] Float32 CUDA [1, 0, 0, 0, 1, 0, 0, 0]"
  "cells (store (demo_scene c opa v pr)) 3 = c"
  "cells (store (demo_scene c opa v pr)) 4 = opa"
  "cells (store (demo_scene c opa v pr)) 5 = v"
  "cells (store (demo_scene c opa v pr)) 6 = pr"
  "used (store (demo_scene c opa v pr)) = 7"
  "fwd_calls (demo_scene c opa v pr) = []"
  by (simp_all add: demo_scene_def world_of_def)

lemmas run_defs = then_do_def ret_def raise_def lift_def check_batch_def
  shape0_def pad_matrix_def legacy_Tensor_def unsqueeze0_def torch_cat0_def
  assert_4x4_def normalize_colors_def t_float_def t_div_def to_cuda_def t_contiguous_def
  t_cuda_def new_tensor_def tensor_at_def batch_assert_failure_def py_ne_method_int Let_def
  f64_one max_f64_one

lemma prepare_harness:
  "prepare demo_env demo_params harness_scene = (Inr (demo_params, demo_args), harness_scene)"
  by (simp add: prepare_def run_defs harness_scene_def demo_cells demo_params_def demo_args_def
        demo_env_def tens_def identity4_def)


lemma forward_cases:
  assumes "forward lib env p w = (r, w')"
  shows "(\<exists>e. prepare env p w = (Inl e, w') \<and> r = Inl e \<and> fwd_calls w' = fwd_calls w) \<or>
         (\<exists>v args wp. prepare env p w = (Inr (v, args), wp) \<and>
            fwd_calls w' = fwd_calls w @ [(args, store wp)])"
proof -
  obtain r1 w1 where pr: "prepare env p w = (r1, w1)" by (cases "prepare env p w")
  from allocates_only_prepare pr have calls: "fwd_calls w1 = fwd_calls w"
    by (simp add: allocates_only_def)
  show ?thesis
  proof (cases r1)
    case (Inl e)
    from pr Inl have "forward lib env p w = (Inl e, w1)"
      by (simp add: forward_prepare_fails)
    with assms pr Inl calls show ?thesis by simp
  next
    case (Inr x)
    obtain v args where x: "x = (v, args)" by (cases x)
    from pr Inr x have pr': "prepare env p w = (Inr (v, args), w1)" by simp
    from assms have "then_do (call_rasterize_forward lib args)
        (\<lambda>r. ret (save_and_return p v r)) w1 = (r, w')"
      by (simp only: forward_after_prepare [OF pr'])
    then obtain r2 where "call_rasterize_forward lib args w1 = (r2, w')"
      by (blast dest: then_do_ret_world)
    then have "fwd_calls w' = fwd_calls w1 @ [(args, store w1)]"
      by (rule call_rasterize_forward_calls)
    with pr' calls show ?thesis by simp
  qed
qed

lemma forward_calls_after_prepare:
  assumes "prepare env p w = (Inr (v, args), w1)"
  shows "fwd_calls (snd (forward lib env p w)) = fwd_calls w @ [(args, store w1)]"
proof -
  obtain r w' where f: "forward lib env p w = (r, w')" by (cases "forward lib env p w")
  from forward_cases [OF f] assms show ?thesis by (auto simp: f)
qed

lemma prepare_cpu:
  "fst (prepare demo_env demo_params cpu_scene) =
     Inr (demo_params\<lparr>colors := 9, view_matrix := 7\<rparr>,
          demo_args\<lparr>colors := 10, opacity := 11, view_matrix := 12, proj_matrix := 13\<rparr>)"
  by (simp add: prepare_def run_defs cpu_scene_def demo_cells demo_params_def demo_args_def
        demo_env_def tens_def identity4_def top3x4_def)

subsection \<open>What the extension receives\<close>

lemma passed_after_call:
  "fwd_calls w' = cs @ [(args, store wp)] \<Longrightarrow> passed f w' = tensor_at wp (f args)"
  by (simp add: passed_def tensor_at_def)

lemma forward_passed:
  assumes "live_params p w" and "forward lib env p w = (r, w')"
    and "fwd_calls w' \<noteq> fwd_calls w"
  shows "if shape (tensor_at w (proj_matrix p)) = [3, 4]
         then padded (tensor_at w (proj_matrix p)) (passed proj_matrix w')
         else shape (tensor_at w (proj_matrix p)) = [4, 4] \<and>
              same_values (passed proj_matrix w') (tensor_at w (proj_matrix p))"
    and "if shape (tensor_at w (view_matrix p)) = [3, 4]
         then padded (tensor_at w (view_matrix p)) (passed view_matrix w')
         else shape (tensor_at w (view_matrix p)) = [4, 4] \<and>
              same_values (passed view_matrix w') (tensor_at w (view_matrix p))"
    and "if dtype (tensor_at w (colors p)) = UInt8
         then normalized (tensor_at w (colors p)) (passed colors w')
         else same_values (passed colors w') (tensor_at w (colors p))"
    and "same_values (passed means3d w') (tensor_at w (means3d p))"
    and "same_values (passed scales w') (tensor_at w (scales p))"
    and "same_values (passed rotations_quat w') (tensor_at w (rotations_quat p))"
    and "same_values (passed opacity w') (tensor_at w (opacity p))"
proof -
  from forward_cases [OF assms(2)] assms(3)
  obtain v args wp where pr: "prepare env p w = (Inr (v, args), wp)"
    and calls: "fwd_calls w' = fwd_calls w @ [(args, store wp)]"
    by auto
  note pa = passed_after_call [OF calls]
  note pi = prepare_Inr [OF assms(1) pr]
  show "if shape (tensor_at w (proj_matrix p)) = [3, 4]
         then padded (tensor_at w (proj_matrix p)) (passed proj_matrix w')
         else shape (tensor_at w (proj_matrix p)) = [4, 4] \<and>
              same_values (passed proj_matrix w') (tensor_at w (proj_matrix p))"
    unfolding pa by (rule pi(1))
  show "if shape (tensor_at w (view_matrix p)) = [3, 4]
         then padded (tensor_at w (view_matrix p)) (passed view_matrix w')
         else shape (tensor_at w (view_matrix p)) = [4, 4] \<and>
              same_values (passed view_matrix w') (tensor_at w (view_matrix p))"
    unfolding pa by (rule pi(2))
  show "if dtype (tensor_at w (colors p)) = UInt8
         then normalized (tensor_at w (colors p)) (passed colors w')
         else same_values (passed colors w') (tensor_at w (colors p))"
    unfolding pa by (rule pi(3))
  show "same_values (passed means3d w') (tensor_at w (means3d p))"
    unfolding pa by (rule pi(4))
  show "same_values (passed scales w') (tensor_at w (scales p))"
    unfolding pa by (rule pi(5))
  show "same_values (passed rotations_quat w') (tensor_at w (rotations_quat p))"
    unfolding pa by (rule pi(6))
  show "same_values (passed opacity w') (tensor_at w (opacity p))"
    unfolding pa by (rule pi(7))
qed

lemma forward_calls_when_prepared:
  assumes "fst (prepare env p w) = Inr x"
  shows "fwd_calls (snd (forward lib env p w)) \<noteq> fwd_calls w"
proof -
  obtain v args where "x = (v, args)" by (cases x)
  with assms have "prepare env p w = (Inr (v, args), snd (prepare env p w))"
    by (metis prod.collapse)
  from forward_calls_after_prepare [OF this] show ?thesis by simp
qed

lemma live_demo: "live_params demo_params (demo_scene c opa v pr)"
  by (simp add: live_params_def demo_cells demo_params_def demo_args_def)

lemma forward_split: "forward lib env p w = (fst (forward lib env p w), snd (forward lib env p w))"
  by simp

lemma prepare_int64:
  "prepare demo_env demo_params int64_scene = (Inr (demo_params, demo_args), int64_scene)"
  by (simp add: prepare_def run_defs int64_scene_def demo_cells demo_params_def demo_args_def
        demo_env_def tens_def identity4_def)

lemma check_items_accepts:
  "leading_dim m3d = Some N \<Longrightarrow> \<forall>(name, t) \<in> set items. leading_dim t = Some N \<Longrightarrow>
   check_items env m3d items = Inr ()"
proof (induction items)
  case Nil
  then show ?case by simp
next
  case (Cons item items)
  obtain name input where item: "item = (name, input)" by (cases item)
  from Cons show ?case
    by (auto simp: item shape0_def leading_dim_def py_ne_method_int split: list.splits)
qed

lemma demo_call_returns:
  "\<exists>res w2. call_rasterize_forward demo_lib args w = (Inr res, w2)"
  by (simp add: call_rasterize_forward_def demo_lib_def)

lemma forward_demo_returns:
  assumes "prepare env p w = (Inr (v, args), w1)"
  shows "\<exists>res w'. forward demo_lib env p w = (Inr res, w')"
proof -
  from demo_call_returns obtain res w2
    where "call_rasterize_forward demo_lib args w1 = (Inr res, w2)" by blast
  then have "forward demo_lib env p w = (Inr (save_and_return p v res), w2)"
    by (simp add: forward_after_prepare [OF assms] then_do_def ret_def)
  then show ?thesis by blast
qed

lemma call_rasterize_forward_store:
  "call_rasterize_forward lib args w = (r, w') \<Longrightarrow>
   rasterize_forward lib args (store w) = (r, store w')"
  by (cases "rasterize_forward lib args (store w)") (auto simp: call_rasterize_forward_def)

lemma forward_extends:
  assumes "forward_read_only lib" and "forward lib env p w = (r, w')"
  shows "extends (store w) (store w')"
proof -
  obtain r1 w1 where pr: "prepare env p w = (r1, w1)" by (cases "prepare env p w")
  from allocates_only_prepare pr have e1: "extends (store w) (store w1)"
    by (rule allocates_onlyD)
  show ?thesis
  proof (cases r1)
    case (Inl e)
    with pr have "forward lib env p w = (Inl e, w1)" by (simp add: forward_prepare_fails)
    with assms(2) e1 show ?thesis by simp
  next
    case (Inr x)
    obtain v args where x: "x = (v, args)" by (cases x)
    from pr Inr x have pr': "prepare env p w = (Inr (v, args), w1)" by simp
    from assms(2) have "then_do (call_rasterize_forward lib args)
        (\<lambda>r. ret (save_and_return p v r)) w1 = (r, w')"
      by (simp only: forward_after_prepare [OF pr'])
    then obtain r2 where "call_rasterize_forward lib args w1 = (r2, w')"
      by (blast dest: then_do_ret_world)
    then have "rasterize_forward lib args (store w1) = (r2, store w')"
      by (rule call_rasterize_forward_store)
    with assms(1) have "extends (store w1) (store w')"
      by (auto simp: forward_read_only_def)
    with e1 show ?thesis by (rule extends_trans)
  qed
qed

lemma demo_lib_read_only: "forward_read_only demo_lib"
  by (auto simp: forward_read_only_def demo_lib_def extends_def)

lemma writing_extension_changes_input:
  "elems (tensor_at (snd (forward writing_lib demo_env demo_params harness_scene))
      (colors demo_params)) = [] \<and>
   elems (tensor_at harness_scene (colors demo_params)) = [1, 0, 0, 0, 1, 0]"
proof -
  have "forward writing_lib demo_env demo_params harness_scene =
      then_do (call_rasterize_forward writing_lib demo_args)
        (\<lambda>r. ret (save_and_return demo_params demo_params r)) harness_scene"
    by (rule forward_after_prepare [OF prepare_harness])
  then have "elems (tensor_at (snd (forward writing_lib demo_env demo_params harness_scene))
      (colors demo_params)) = []"
    by (simp add: then_do_def ret_def call_rasterize_forward_def writing_lib_def demo_lib_def
          tensor_at_def harness_scene_def demo_cells demo_params_def demo_args_def)
  moreover have "elems (tensor_at harness_scene (colors demo_params)) = [1, 0, 0, 0, 1, 0]"
    by (simp add: harness_scene_def demo_tensor_at tens_def)
  ultimately show ?thesis by blast
qed

subsection \<open>Running \<open>backward\<close>\<close>

lemma prepare_column:
  "prepare demo_env demo_params column_scene = (Inr (demo_params, demo_args), column_scene)"
  by (simp add: prepare_def run_defs column_scene_def demo_cells demo_params_def demo_args_def
        demo_env_def tens_def identity4_def)

lemma forward_column:
  "fst (forward demo_lib demo_env demo_params column_scene) = Inr ((0, 7, 8), demo_ctx)"
proof -
  have "forward demo_lib demo_env demo_params column_scene =
      then_do (call_rasterize_forward demo_lib demo_args)
        (\<lambda>r. ret (save_and_return demo_params demo_params r)) column_scene"
    by (rule forward_after_prepare [OF prepare_column])
  then show ?thesis
    by (simp add: then_do_def ret_def call_rasterize_forward_def demo_lib_def
          save_and_return_def demo_ctx_def column_scene_def demo_cells demo_params_def demo_args_def)
qed

lemma after_forward_store:
  "used (store after_forward) = 15"
  "cells (store after_forward) 0 = tens [2, 3] Float32 CUDA [0, 0, 0, 1, 1, 1]"
  "cells (store after_forward) 3 = tens [2, 3] Float32 CUDA [1, 0, 0, 0, 1, 0]"
  "cells (store after_forward) 4 = tens [2, 1] Float32 CUDA [1, 1]"
proof -
  have "forward demo_lib demo_env demo_params column_scene =
      then_do (call_rasterize_forward demo_lib demo_args)
        (\<lambda>r. ret (save_and_return demo_params demo_params r)) column_scene"
    by (rule forward_after_prepare [OF prepare_column])
  then have s: "store after_forward =
      snd (rasterize_forward demo_lib demo_args (store column_scene))"
    by (simp add: after_forward_def then_do_def ret_def call_rasterize_forward_def
          split: prod.splits sum.splits)
  show "used (store after_forward) = 15"
    "cells (store after_forward) 0 = tens [2, 3] Float32 CUDA [0, 0, 0, 1, 1, 1]"
    "cells (store after_forward) 3 = tens [2, 3] Float32 CUDA [1, 0, 0, 0, 1, 0]"
    "cells (store after_forward) 4 = tens [2, 1] Float32 CUDA [1, 1]"
    unfolding s by (simp_all add: demo_lib_def column_scene_def demo_cells)
qed

lemma backward_squeezes:
  assumes "core_backward_args c g = Inr args"
    and "rasterize_backward lib args (store w) = (Inr (vc, vo), s1)"
  shows "backward lib c gn g gr w =
           (Inr [None, None, None, None, Some vc, Some (used s1),
                 None, None, None, None, None, None],
            w\<lparr>store := \<lparr>cells = (cells s1)(used s1 :=
                                (cells s1 vo)\<lparr>shape := squeeze_last (shape (cells s1 vo))\<rparr>),
                         used = Suc (used s1)\<rparr>\<rparr>)"
  using assms
  by (simp add: backward_def then_do_def t_squeeze_last_def new_tensor_def ret_def
        tensor_at_def Let_def)

lemma core_backward_args_demo:
  "core_backward_args demo_ctx 7 =
     Inr \<lparr>b_means3d = 0, b_colors = 3, b_scales = 1, b_grad_out_img = 7, b_img_height = 4,
          b_img_width = 4, b_fx = FloatNum 2, b_fy = FloatNum 2,
          b_channels = IntNum 3, b_gaussian_ids_sorted = 11,
          b_tile_bins = 12, b_xy = 13, b_conics = 14, b_opacities = 4, b_final_Ts = 9,
          b_final_idx = 10\<rparr>"
  by (simp add: core_backward_args_def demo_ctx_def)

lemma backward_result:
  assumes "backward lib c gn g gr w = (Inr grads, w')"
  shows "\<exists>vc r. grads = [None, None, None, None, Some vc, Some r,
                          None, None, None, None, None, None]"
proof (cases "core_backward_args c g")
  case (Inl e)
  with assms show ?thesis by (simp add: backward_def raise_def)
next
  case (Inr args)
  obtain res s1 where rb: "rasterize_backward lib args (store w) = (res, s1)"
    by (cases "rasterize_backward lib args (store w)")
  show ?thesis
  proof (cases res)
    case (Inl e)
    with assms Inr rb show ?thesis by (simp add: backward_def)
  next
    case (Inr vs)
    obtain vc vo where vs: "vs = (vc, vo)" by (cases vs)
    from backward_squeezes [OF \<open>core_backward_args c g = Inr args\<close> rb [unfolded Inr vs]] assms
    show ?thesis by auto
  qed
qed

lemma demo_backward_call:
  "rasterize_backward demo_lib args s = (Inr (used s, used s + 1),
      snd (rasterize_backward demo_lib args s))"
  "shape (cells (snd (rasterize_backward demo_lib args s)) (used s + 1)) =
     [hd (shape (cells s (b_means3d args))), 1]"
  "used (snd (rasterize_backward demo_lib args s)) = used s + 2"
  by (simp_all add: demo_lib_def tens_def)

lemma demo_backward_opacity:
  "\<exists>grads w' r. backward demo_lib demo_ctx None 7 None after_forward = (Inr grads, w') \<and>
      length grads = 12 \<and> grads ! 4 = Some 15 \<and> grads ! 5 = Some r \<and>
      shape (tensor_at w' r) = [2]"
proof -
  let ?args = "\<lparr>b_means3d = 0, b_colors = 3, b_scales = 1, b_grad_out_img = 7, b_img_height = 4,
          b_img_width = 4, b_fx = FloatNum 2, b_fy = FloatNum 2,
          b_channels = IntNum 3, b_gaussian_ids_sorted = 11,
          b_tile_bins = 12, b_xy = 13, b_conics = 14, b_opacities = 4, b_final_Ts = 9,
          b_final_idx = 10\<rparr>"
  let ?s1 = "snd (rasterize_backward demo_lib ?args (store after_forward))"
  have rb: "rasterize_backward demo_lib ?args (store after_forward) = (Inr (15, 16), ?s1)"
    using demo_backward_call(1) [of ?args "store after_forward"]
    by (simp add: after_forward_store)
  have sh: "shape (cells ?s1 16) = [2, 1]"
    using demo_backward_call(2) [of ?args "store after_forward"]
    by (simp add: after_forward_store tens_def)
  show ?thesis
    using sh
    by (simp add: backward_squeezes [OF core_backward_args_demo rb] tensor_at_def
          squeeze_last_def)
qed

text \<open>Whenever the extension returns an opacity gradient of shape \<open>[N, 1]\<close>,
  \<^verbatim>\<open>backward\<close> returns one of shape \<open>[N]\<close>.\<close>

lemma backward_returns_squeezed_opacity:
  assumes "core_backward_args c g = Inr args"
    and "rasterize_backward lib args (store w) = (Inr (vc, vo), s1)"
    and "shape (cells s1 vo) = [N, 1]"
  shows "\<exists>grads w' r. backward lib c gn g gr w = (Inr grads, w') \<and>
           grads ! 5 = Some r \<and> shape (tensor_at w' r) = [N]"
  using assms(3)
  by (simp add: backward_squeezes [OF assms(1,2)] tensor_at_def squeeze_last_def)

subsection \<open>The transmittance along a walk\<close>

lemma walk_hd: "hd (walk thr px i gs st) = st"
  by (cases gs) simp_all

lemma blend_transmittance:
  assumes "valid_at px g" and "0 \<le> transmittance st"
  shows "0 \<le> transmittance (blend px i g st)"
    and "transmittance (blend px i g st) \<le> transmittance st"
proof -
  from assms(1) have a: "0 \<le> alpha g px" "alpha g px \<le> 1"
    by (simp_all add: valid_at_def)
  have t: "transmittance (blend px i g st) = transmittance st * (1 - alpha g px)"
    by (simp add: blend_def)
  from a assms(2) show "0 \<le> transmittance (blend px i g st)"
    unfolding t by (intro mult_nonneg_nonneg) simp_all
  from a assms(2) have "transmittance st * (1 - alpha g px) \<le> transmittance st * 1"
    by (intro mult_left_mono) simp_all
  then show "transmittance (blend px i g st) \<le> transmittance st"
    unfolding t by simp
qed

lemma walk_transmittance:
  assumes "\<forall>g \<in> set gs. valid_at px g" and "0 \<le> transmittance st"
  shows "sorted_wrt (\<lambda>a b. b \<le> a) (map transmittance (walk thr px i gs st)) \<and>
         (\<forall>s \<in> set (walk thr px i gs st).
            0 \<le> transmittance s \<and> transmittance s \<le> transmittance st)"
  using assms
proof (induction gs arbitrary: i st)
  case Nil
  then show ?case by simp
next
  case (Cons g gs)
  let ?st' = "blend px i g st"
  from Cons.prems have v: "valid_at px g" and vs: "\<forall>g \<in> set gs. valid_at px g" by simp_all
  note b = blend_transmittance [OF v Cons.prems(2), of i]
  show ?case
  proof (cases "transmittance ?st' < thr")
    case True
    with b Cons.prems(2) show ?thesis by (simp add: Let_def)
  next
    case False
    from Cons.IH [OF vs b(1), of "Suc i"]
    have ih: "sorted_wrt (\<lambda>a b. b \<le> a) (map transmittance (walk thr px (Suc i) gs ?st'))"
      and bd: "\<forall>s \<in> set (walk thr px (Suc i) gs ?st').
            0 \<le> transmittance s \<and> transmittance s \<le> transmittance ?st'"
      by simp_all
    from bd b(2) have bd': "\<forall>s \<in> set (walk thr px (Suc i) gs ?st').
            0 \<le> transmittance s \<and> transmittance s \<le> transmittance st"
      by auto
    with False ih Cons.prems(2) show ?thesis by (simp add: Let_def)
  qed
qed

lemma demo_walk:
  "map transmittance (walk (1 / 255) (0, 0) 0 [half_splat, quarter_splat] (initial_state 3)) =
     [1, 1 / 2, 3 / 8]"
  by (simp add: half_splat_def quarter_splat_def initial_state_def blend_def alpha_def
        gauss_weight_def Let_def)

lemma demo_valid: "valid_at (0, 0) half_splat" "valid_at (0, 0) quarter_splat"
  by (simp_all add: valid_at_def alpha_def gauss_weight_def half_splat_def quarter_splat_def)

subsection \<open>Two calls that raise\<close>

text \<open>With the name \<^verbatim>\<open>means\<close> unbound the failing assertion of line 56 ends in a
  \<^verbatim>\<open>NameError\<close>; and with the default tensor type in host memory the row for a
  3 by 4 matrix on the CUDA device cannot be built, so that call raises before anything
  is passed on.\<close>

lemma prepare_mismatched:
  "prepare demo_env demo_params mismatched_scene = (Inl NameError, mismatched_scene)"
proof -
  have "check_batch demo_env demo_params mismatched_scene = (Inl NameError, mismatched_scene)"
    by (simp add: check_batch_def lift_def demo_tensor_at mismatched_scene_def shape0_def
          tens_def batch_assert_failure_def demo_env_def py_ne_method_int)
  then show ?thesis unfolding prepare_def by (rule then_do_Inl)
qed

lemma forward_mismatched:
  "forward demo_lib demo_env demo_params mismatched_scene = (Inl NameError, mismatched_scene)"
  using prepare_mismatched by (rule forward_prepare_fails)

lemma forward_cuda_3x4_raises:
  "forward lib demo_env demo_params cuda_3x4_scene = (Inl RuntimeError, cuda_3x4_scene)"
proof -
  have "prepare demo_env demo_params cuda_3x4_scene = (Inl RuntimeError, cuda_3x4_scene)"
    by (simp add: prepare_def run_defs cuda_3x4_scene_def demo_cells demo_params_def demo_args_def
          demo_env_def tens_def identity4_def top3x4_def)
  then show ?thesis by (rule forward_prepare_fails)
qed

text \<open>A global scale too large for a float makes \<^verbatim>\<open>float(glob_scale)\<close> raise, after the
  tensors before it in the argument list have been converted and before the call.\<close>

lemma prepare_scale_fails:
  assumes "py_float (IntNum n) = Inl e"
  shows "prepare demo_env (demo_params\<lparr>glob_scale := IntNum n\<rparr>) harness_scene =
           (Inl e, harness_scene)"
  using assms
  by (simp add: prepare_def run_defs harness_scene_def demo_cells demo_params_def
        demo_env_def tens_def identity4_def del: py_float.simps)

lemma forward_overflow:
  "forward lib demo_env (demo_params\<lparr>glob_scale := IntNum (2 ^ 1024)\<rparr>) harness_scene =
     (Inl OverflowError, harness_scene)"
  using prepare_scale_fails [OF py_float_overflow] by (rule forward_prepare_fails)

subsection \<open>The camera matrices that are passed on\<close>

text \<open>When a call reaches \<^verbatim>\<open>cuda_lib.rasterize_forward\<close>, a 3 by 4 matrix has arrived there
  with the row \<open>[0, 0, 0, 1]\<close> appended, and a 4 by 4 matrix with its values unchanged; a
  call with a 3 by 4 view matrix in host memory, where the row can be built, is such a call.\<close>

lemma padded_when_passed:
  assumes "live_params p w" and "forward lib env p w = (r, w')"
    and "fwd_calls w' \<noteq> fwd_calls w"
  shows "(shape (tensor_at w (view_matrix p)) = [3, 4] \<longrightarrow>
            shape (passed view_matrix w') = [4, 4] \<and>
            elems (passed view_matrix w') = elems (tensor_at w (view_matrix p)) @ [0, 0, 0, 1]) \<and>
         (shape (tensor_at w (view_matrix p)) = [4, 4] \<longrightarrow>
            same_values (passed view_matrix w') (tensor_at w (view_matrix p))) \<and>
         (shape (tensor_at w (proj_matrix p)) = [3, 4] \<longrightarrow>
            shape (passed proj_matrix w') = [4, 4] \<and>
            elems (passed proj_matrix w') = elems (tensor_at w (proj_matrix p)) @ [0, 0, 0, 1]) \<and>
         (shape (tensor_at w (proj_matrix p)) = [4, 4] \<longrightarrow>
            same_values (passed proj_matrix w') (tensor_at w (proj_matrix p)))"
proof -
  note pr = forward_passed(1) [OF assms] and vw = forward_passed(2) [OF assms]
  have v3: "shape (tensor_at w (view_matrix p)) = [3, 4] \<longrightarrow>
            shape (passed view_matrix w') = [4, 4] \<and>
            elems (passed view_matrix w') = elems (tensor_at w (view_matrix p)) @ [0, 0, 0, 1]"
    using vw by (cases "shape (tensor_at w (view_matrix p)) = [3, 4]") (simp_all add: padded_def)
  have v4: "shape (tensor_at w (view_matrix p)) = [4, 4] \<longrightarrow>
            same_values (passed view_matrix w') (tensor_at w (view_matrix p))"
    using vw by (cases "shape (tensor_at w (view_matrix p)) = [3, 4]") simp_all
  have p3: "shape (tensor_at w (proj_matrix p)) = [3, 4] \<longrightarrow>
            shape (passed proj_matrix w') = [4, 4] \<and>
            elems (passed proj_matrix w') = elems (tensor_at w (proj_matrix p)) @ [0, 0, 0, 1]"
    using pr by (cases "shape (tensor_at w (proj_matrix p)) = [3, 4]") (simp_all add: padded_def)
  have p4: "shape (tensor_at w (proj_matrix p)) = [4, 4] \<longrightarrow>
            same_values (passed proj_matrix w') (tensor_at w (proj_matrix p))"
    using pr by (cases "shape (tensor_at w (proj_matrix p)) = [3, 4]") simp_all
  from v3 v4 p3 p4 show ?thesis by blast
qed

lemma cpu_camera_is_padded:
  "live_params demo_params cpu_scene \<and>
   fwd_calls (snd (forward demo_lib demo_env demo_params cpu_scene)) \<noteq> fwd_calls cpu_scene \<and>
   shape (tensor_at cpu_scene (view_matrix demo_params)) = [3, 4] \<and>
   shape (tensor_at cpu_scene (proj_matrix demo_params)) = [4, 4] \<and>
   shape (passed view_matrix (snd (forward demo_lib demo_env demo_params cpu_scene))) = [4, 4] \<and>
   elems (passed view_matrix (snd (forward demo_lib demo_env demo_params cpu_scene))) =
     [1, 0, 0, 0, 0, 1, 0, 0, 0, 0, 1, 8, 0, 0, 0, 1] \<and>
   same_values (passed proj_matrix (snd (forward demo_lib demo_env demo_params cpu_scene)))
     (identity4 CPU)"
proof -
  have l: "live_params demo_params cpu_scene"
    by (simp add: cpu_scene_def live_demo)
  have c: "fwd_calls (snd (forward demo_lib demo_env demo_params cpu_scene)) \<noteq>
      fwd_calls cpu_scene"
    using prepare_cpu by (rule forward_calls_when_prepared)
  have v: "tensor_at cpu_scene (view_matrix demo_params) = top3x4 CPU"
    and p: "tensor_at cpu_scene (proj_matrix demo_params) = identity4 CPU"
    by (simp_all add: cpu_scene_def demo_tensor_at)
  have sv: "shape (top3x4 CPU) = [3, 4]" and sp: "shape (identity4 CPU) = [4, 4]"
    and ev: "elems (top3x4 CPU) = [1, 0, 0, 0, 0, 1, 0, 0, 0, 0, 1, 8]"
    by (simp_all add: top3x4_def identity4_def tens_def)
  note t = padded_when_passed [OF l forward_split c, unfolded v p]
  from t sv have "shape (passed view_matrix (snd (forward demo_lib demo_env demo_params cpu_scene))) = [4, 4]"
    and "elems (passed view_matrix (snd (forward demo_lib demo_env demo_params cpu_scene))) =
     elems (top3x4 CPU) @ [0, 0, 0, 1]"
    by blast+
  moreover from t sp have "same_values (passed proj_matrix (snd (forward demo_lib demo_env demo_params cpu_scene)))
     (identity4 CPU)"
    by blast
  ultimately show ?thesis using l c sv sp by (simp add: v p ev)
qed

section \<open>The claims\<close>

text \<open>
  Claim C1. When one of the per-Gaussian tensors (\<^verbatim>\<open>means3d\<close>, \<^verbatim>\<open>scales\<close>,
  \<^verbatim>\<open>rotations_quat\<close>, \<^verbatim>\<open>colors\<close>, \<^verbatim>\<open>opacity\<close>) has a first axis that differs from the
  first axis of \<^verbatim>\<open>means3d\<close> (one of them may have no axis at all), \<^verbatim>\<open>forward\<close> raises,
  and it leaves the world exactly as it found it: \<^verbatim>\<open>cuda_lib.rasterize_forward\<close> has not
  been called and no tensor has been created or changed.
\<close>

theorem forward_batch_mismatch_raises:
  assumes "\<exists>r \<in> {means3d p, scales p, rotations_quat p, colors p, opacity p}.
             leading_dim (tensor_at w r) \<noteq> leading_dim (tensor_at w (means3d p))"
  shows "\<exists>e. forward lib env p w = (Inl e, w)"
proof -
  from assms have "\<exists>(name, t) \<in> set
       [(''means3d'', tensor_at w (means3d p)),
        (''scales'', tensor_at w (scales p)),
        (''rotations.quat'', tensor_at w (rotations_quat p)),
        (''colors'', tensor_at w (colors p)),
        (''opacity'', tensor_at w (opacity p))].
       leading_dim t \<noteq> leading_dim (tensor_at w (means3d p))"
    by auto
  from check_items_mismatch [OF this]
  obtain e where "check_batch env p w = (Inl e, w)"
    by (auto simp: check_batch_def lift_def)
  then have "prepare env p w = (Inl e, w)"
    unfolding prepare_def by (rule then_do_Inl)
  then have "forward lib env p w = (Inl e, w)"
    by (rule forward_prepare_fails)
  then show ?thesis ..
qed

theorem forward_batch_mismatch_raises_witness:
  "leading_dim (tensor_at mismatched_scene (colors demo_params)) = Some 3 \<and>
   leading_dim (tensor_at mismatched_scene (means3d demo_params)) = Some 2 \<and>
   (\<exists>e. forward demo_lib demo_env demo_params mismatched_scene = (Inl e, mismatched_scene)) \<and>
   forward demo_lib demo_env demo_params mismatched_scene = (Inl NameError, mismatched_scene)"
proof -
  have c: "leading_dim (tensor_at mismatched_scene (colors demo_params)) = Some 3"
    by (simp add: mismatched_scene_def demo_tensor_at leading_dim_def tens_def)
  have m: "leading_dim (tensor_at mismatched_scene (means3d demo_params)) = Some 2"
    by (simp add: mismatched_scene_def demo_tensor_at leading_dim_def tens_def)
  from c m have "\<exists>r \<in> {means3d demo_params, scales demo_params, rotations_quat demo_params,
        colors demo_params, opacity demo_params}.
      leading_dim (tensor_at mismatched_scene r) \<noteq>
      leading_dim (tensor_at mismatched_scene (means3d demo_params))"
    by simp
  from forward_batch_mismatch_raises [OF this, of demo_lib demo_env] c m forward_mismatched
  show ?thesis by simp
qed

text \<open>
  Claim C6 (the code does not do this). Lines 67 and 75 build the row with the legacy
  constructor, \<^verbatim>\<open>torch.Tensor([0, 0, 0, 1], device=proj_matrix.device)\<close>, which raises unless
  the device is that of the default tensor type. With the default tensor type in host
  memory and the tensors on the CUDA device, as in the module's own test, a call with a
  3 by 4 view matrix and a 4 by 4 projection matrix raises \<^verbatim>\<open>RuntimeError\<close>: nothing is
  padded, \<^verbatim>\<open>cuda_lib.rasterize_forward\<close> is not called, and the world is as it was.
\<close>

theorem forward_raises_for_cuda_3x4_matrix:
  "default_tensor_device demo_env = CPU \<and>
   shape (tensor_at cuda_3x4_scene (view_matrix demo_params)) = [3, 4] \<and>
   device (tensor_at cuda_3x4_scene (view_matrix demo_params)) = CUDA \<and>
   shape (tensor_at cuda_3x4_scene (proj_matrix demo_params)) = [4, 4] \<and>
   device (tensor_at cuda_3x4_scene (proj_matrix demo_params)) = CUDA \<and>
   forward demo_lib demo_env demo_params cuda_3x4_scene = (Inl RuntimeError, cuda_3x4_scene) \<and>
   fwd_calls (snd (forward demo_lib demo_env demo_params cuda_3x4_scene)) = []"
proof -
  have c: "fwd_calls cuda_3x4_scene = []"
    by (simp add: cuda_3x4_scene_def demo_cells)
  have e: "default_tensor_device demo_env = CPU"
    by (simp add: demo_env_def)
  have v: "shape (tensor_at cuda_3x4_scene (view_matrix demo_params)) = [3, 4]"
    "device (tensor_at cuda_3x4_scene (view_matrix demo_params)) = CUDA"
    by (simp_all add: cuda_3x4_scene_def demo_tensor_at top3x4_def tens_def)
  have p: "shape (tensor_at cuda_3x4_scene (proj_matrix demo_params)) = [4, 4]"
    "device (tensor_at cuda_3x4_scene (proj_matrix demo_params)) = CUDA"
    by (simp_all add: cuda_3x4_scene_def demo_tensor_at identity4_def tens_def)
  have f: "forward demo_lib demo_env demo_params cuda_3x4_scene =
      (Inl RuntimeError, cuda_3x4_scene)"
    by (rule forward_cuda_3x4_raises)
  from c e v p f show ?thesis by simp
qed

text \<open>
  Claim C7. When the view matrix or the projection matrix is neither 3 by 4 nor 4 by 4,
  \<^verbatim>\<open>forward\<close> raises, and \<^verbatim>\<open>cuda_lib.rasterize_forward\<close> has not been called.
\<close>

theorem forward_bad_camera_raises:
  assumes "live_params p w"
    and "shape (tensor_at w (view_matrix p)) \<notin> {[3, 4], [4, 4]} \<or>
         shape (tensor_at w (proj_matrix p)) \<notin> {[3, 4], [4, 4]}"
  shows "\<exists>e w'. forward lib env p w = (Inl e, w') \<and> fwd_calls w' = fwd_calls w"
proof -
  obtain r w' where f: "forward lib env p w = (r, w')" by (cases "forward lib env p w")
  have same: "fwd_calls w' = fwd_calls w"
  proof (rule ccontr)
    assume ne: "fwd_calls w' \<noteq> fwd_calls w"
    have "shape (tensor_at w (proj_matrix p)) = [3, 4] \<or>
          shape (tensor_at w (proj_matrix p)) = [4, 4]"
      using forward_passed(1) [OF assms(1) f ne] by (cases "shape (tensor_at w (proj_matrix p)) = [3, 4]") simp_all
    moreover have "shape (tensor_at w (view_matrix p)) = [3, 4] \<or>
          shape (tensor_at w (view_matrix p)) = [4, 4]"
      using forward_passed(2) [OF assms(1) f ne] by (cases "shape (tensor_at w (view_matrix p)) = [3, 4]") simp_all
    ultimately show False using assms(2) by blast
  qed
  from forward_cases [OF f]
  have "(\<exists>e. r = Inl e) \<or> fwd_calls w' \<noteq> fwd_calls w" by auto
  with same obtain e where "r = Inl e" by blast
  with f same show ?thesis by blast
qed

theorem forward_bad_camera_raises_witness:
  "live_params demo_params bad_camera_scene \<and>
   shape (tensor_at bad_camera_scene (view_matrix demo_params)) = [2, 4] \<and>
   (\<exists>e w'. forward demo_lib demo_env demo_params bad_camera_scene = (Inl e, w') \<and>
      fwd_calls w' = fwd_calls bad_camera_scene)"
proof -
  have l: "live_params demo_params bad_camera_scene"
    by (simp add: bad_camera_scene_def live_demo)
  have v: "shape (tensor_at bad_camera_scene (view_matrix demo_params)) = [2, 4]"
    by (simp add: bad_camera_scene_def demo_tensor_at tens_def)
  then have "shape (tensor_at bad_camera_scene (view_matrix demo_params)) \<notin> {[3, 4], [4, 4]} \<or>
    shape (tensor_at bad_camera_scene (proj_matrix demo_params)) \<notin> {[3, 4], [4, 4]}"
    by simp
  from forward_bad_camera_raises [OF l this, of demo_lib demo_env]
  have "\<exists>e w'. forward demo_lib demo_env demo_params bad_camera_scene = (Inl e, w') \<and>
      fwd_calls w' = fwd_calls bad_camera_scene" .
  with l v show ?thesis by blast
qed

text \<open>
  Claim C4, as the code has it. The test of line 88 is \<^verbatim>\<open>colors.dtype == torch.uint8\<close>: in
  every call of \<^verbatim>\<open>forward\<close> that reaches \<^verbatim>\<open>cuda_lib.rasterize_forward\<close>, colours of dtype
  uint8 arrive there converted to float32 and divided by 255 in float32 arithmetic, each
  quotient rounded to float32 (51 becomes 13421773 / 67108864 in host memory, not one
  fifth), and colours of any other dtype, floating or integral, arrive with their shape,
  dtype and elements unchanged.
\<close>

theorem forward_normalizes_uint8_colors:
  assumes "live_params p w" and "forward lib env p w = (r, w')"
    and "fwd_calls w' \<noteq> fwd_calls w"
  shows "(dtype (tensor_at w (colors p)) = UInt8 \<longrightarrow>
            dtype (passed colors w') = Float32 \<and>
            shape (passed colors w') = shape (tensor_at w (colors p)) \<and>
            elems (passed colors w') =
              map (\<lambda>x. div_scalar_f32 (device (tensor_at w (colors p))) (f32 x) 255)
                (elems (tensor_at w (colors p)))) \<and>
         (dtype (tensor_at w (colors p)) \<noteq> UInt8 \<longrightarrow>
            same_values (passed colors w') (tensor_at w (colors p)))"
  using forward_passed(3) [OF assms]
  by (cases "dtype (tensor_at w (colors p)) = UInt8") (simp_all add: normalized_def)

theorem forward_normalizes_uint8_colors_witness:
  "live_params demo_params cpu_scene \<and>
   fwd_calls (snd (forward demo_lib demo_env demo_params cpu_scene)) \<noteq> fwd_calls cpu_scene \<and>
   tensor_at cpu_scene (colors demo_params) = tens [2, 3] UInt8 CPU [255, 0, 0, 0, 51, 0] \<and>
   dtype (passed colors (snd (forward demo_lib demo_env demo_params cpu_scene))) = Float32 \<and>
   shape (passed colors (snd (forward demo_lib demo_env demo_params cpu_scene))) = [2, 3] \<and>
   elems (passed colors (snd (forward demo_lib demo_env demo_params cpu_scene))) =
     [1, 0, 0, 0, 13421773 / 67108864, 0]"
proof -
  have l: "live_params demo_params cpu_scene"
    by (simp add: cpu_scene_def live_demo)
  have c: "fwd_calls (snd (forward demo_lib demo_env demo_params cpu_scene)) \<noteq>
      fwd_calls cpu_scene"
    using prepare_cpu by (rule forward_calls_when_prepared)
  have t: "tensor_at cpu_scene (colors demo_params) = tens [2, 3] UInt8 CPU [255, 0, 0, 0, 51, 0]"
    by (simp add: cpu_scene_def demo_tensor_at)
  have d: "dtype (tens [2, 3] UInt8 CPU [255, 0, 0, 0, 51, 0]) = UInt8"
    and s: "shape (tens [2, 3] UInt8 CPU [255, 0, 0, 0, 51, 0]) = [2, 3]"
    and e: "map (\<lambda>x. div_scalar_f32 (device (tens [2, 3] UInt8 CPU [255, 0, 0, 0, 51, 0]))
                 (f32 x) 255)
          (elems (tens [2, 3] UInt8 CPU [255, 0, 0, 0, 51, 0])) =
        [1, 0, 0, 0, 13421773 / 67108864, 0]"
    by (simp_all add: tens_def div_scalar_f32_def f32_zero f32_one f32_51 f32_255 f32_fifth)
  from forward_normalizes_uint8_colors [OF l forward_split c, unfolded t] d
  have "dtype (passed colors (snd (forward demo_lib demo_env demo_params cpu_scene))) = Float32 \<and>
    shape (passed colors (snd (forward demo_lib demo_env demo_params cpu_scene))) =
      shape (tens [2, 3] UInt8 CPU [255, 0, 0, 0, 51, 0]) \<and>
    elems (passed colors (snd (forward demo_lib demo_env demo_params cpu_scene))) =
      map (\<lambda>x. div_scalar_f32 (device (tens [2, 3] UInt8 CPU [255, 0, 0, 0, 51, 0]))
             (f32 x) 255)
        (elems (tens [2, 3] UInt8 CPU [255, 0, 0, 0, 51, 0]))"
    by blast
  with l c t show ?thesis unfolding s e by blast
qed

text \<open>
  The claim as stated (every integral dtype is normalised) fails for 64-bit integer colours
  with values in 0 to 255: they reach the extension as they are, neither converted to
  floating point nor divided by 255.
\<close>

theorem integral_colors_not_normalized:
  "is_integral (dtype (tensor_at int64_scene (colors demo_params))) \<and>
   elems (tensor_at int64_scene (colors demo_params)) = [255, 0, 0, 0, 51, 0] \<and>
   fwd_calls (snd (forward demo_lib demo_env demo_params int64_scene)) \<noteq> fwd_calls int64_scene \<and>
   dtype (passed colors (snd (forward demo_lib demo_env demo_params int64_scene))) = Int64 \<and>
   elems (passed colors (snd (forward demo_lib demo_env demo_params int64_scene))) =
     [255, 0, 0, 0, 51, 0] \<and>
   \<not> normalized (tensor_at int64_scene (colors demo_params))
       (passed colors (snd (forward demo_lib demo_env demo_params int64_scene)))"
proof -
  have l: "live_params demo_params int64_scene"
    by (simp add: int64_scene_def live_demo)
  have c: "fwd_calls (snd (forward demo_lib demo_env demo_params int64_scene)) \<noteq>
      fwd_calls int64_scene"
    by (rule forward_calls_when_prepared [of _ _ _ "(demo_params, demo_args)"])
       (simp add: prepare_int64)
  have t: "tensor_at int64_scene (colors demo_params) = tens [2, 3] Int64 CUDA [255, 0, 0, 0, 51, 0]"
    by (simp add: int64_scene_def demo_tensor_at)
  have d: "dtype (tens [2, 3] Int64 CUDA [255, 0, 0, 0, 51, 0]) = Int64"
    and e: "elems (tens [2, 3] Int64 CUDA [255, 0, 0, 0, 51, 0]) = [255, 0, 0, 0, 51, 0]"
    by (simp_all add: tens_def)
  from forward_passed(3) [OF l forward_split c, unfolded t] d
  have "same_values (passed colors (snd (forward demo_lib demo_env demo_params int64_scene)))
          (tens [2, 3] Int64 CUDA [255, 0, 0, 0, 51, 0])"
    by simp
  then have "dtype (passed colors (snd (forward demo_lib demo_env demo_params int64_scene))) = Int64"
    and "elems (passed colors (snd (forward demo_lib demo_env demo_params int64_scene))) =
      [255, 0, 0, 0, 51, 0]"
    by (simp_all add: same_values_def d e)
  with c show ?thesis
    by (simp add: t d e is_integral_def normalized_def)
qed

text \<open>
  Claim C2 (the code does not do this). The second assertion of the loop, lines 59--61,
  compares the bound method \<^verbatim>\<open>input.dim\<close> with 2 instead of calling it, so it never
  fails (\<open>py_ne_method_int\<close>), and the loop accepts every batch whose first axes agree
  (\<open>check_items_accepts\<close>). On the call of the module's own test, whose opacities are
  one-dimensional, \<^verbatim>\<open>forward\<close> raises nothing and calls \<^verbatim>\<open>cuda_lib.rasterize_forward\<close>.
\<close>

theorem forward_accepts_one_dimensional_opacity:
  "shape (tensor_at harness_scene (opacity demo_params)) = [2] \<and>
   (\<exists>res. fst (forward demo_lib demo_env demo_params harness_scene) = Inr res) \<and>
   fwd_calls (snd (forward demo_lib demo_env demo_params harness_scene)) =
     [(demo_args, store harness_scene)]"
proof -
  have s: "shape (tensor_at harness_scene (opacity demo_params)) = [2]"
    by (simp add: harness_scene_def demo_tensor_at tens_def)
  from forward_demo_returns [OF prepare_harness]
  have r: "\<exists>res. fst (forward demo_lib demo_env demo_params harness_scene) = Inr res"
    by auto
  have "fwd_calls harness_scene = []"
    by (simp add: harness_scene_def demo_cells)
  with forward_calls_after_prepare [OF prepare_harness, of demo_lib]
  have c: "fwd_calls (snd (forward demo_lib demo_env demo_params harness_scene)) =
     [(demo_args, store harness_scene)]"
    by simp
  from s r c show ?thesis by blast
qed

text \<open>
  Claim C10, as the code has it. \<^verbatim>\<open>forward\<close> itself writes to no tensor: the
  normalisation and the padding create new tensors, and \<^verbatim>\<open>.contiguous()\<close> and
  \<^verbatim>\<open>.cuda()\<close> create a new tensor or return the one they are given. So when the extension
  writes to no object that existed before it was called, every tensor that existed when
  \<^verbatim>\<open>forward\<close> was called, the inputs among them, holds after \<^verbatim>\<open>forward\<close> what it held
  before, whether \<^verbatim>\<open>forward\<close> returns or raises.
\<close>

theorem forward_keeps_callers_tensors:
  assumes "forward_read_only lib" and "forward lib env p w = (r, w')"
    and "a < used (store w)"
  shows "tensor_at w' a = tensor_at w a"
  using forward_extends [OF assms(1,2)] assms(3) by (rule extends_cell)

theorem forward_keeps_callers_tensors_witness:
  "forward_read_only demo_lib \<and>
   colors demo_params < used (store cpu_scene) \<and>
   view_matrix demo_params < used (store cpu_scene) \<and>
   tensor_at (snd (forward demo_lib demo_env demo_params cpu_scene)) (colors demo_params) =
     tens [2, 3] UInt8 CPU [255, 0, 0, 0, 51, 0] \<and>
   tensor_at (snd (forward demo_lib demo_env demo_params cpu_scene)) (view_matrix demo_params) =
     top3x4 CPU"
proof -
  have c: "colors demo_params < used (store cpu_scene)"
    and v: "view_matrix demo_params < used (store cpu_scene)"
    by (simp_all add: cpu_scene_def demo_cells demo_params_def demo_args_def)
  have tc: "tensor_at cpu_scene (colors demo_params) = tens [2, 3] UInt8 CPU [255, 0, 0, 0, 51, 0]"
    and tv: "tensor_at cpu_scene (view_matrix demo_params) = top3x4 CPU"
    by (simp_all add: cpu_scene_def demo_tensor_at)
  from forward_keeps_callers_tensors [OF demo_lib_read_only forward_split c]
    forward_keeps_callers_tensors [OF demo_lib_read_only forward_split v]
    demo_lib_read_only c v
  show ?thesis by (simp add: tc tv)
qed

text \<open>
  The claim as stated says that the conversions \<^verbatim>\<open>.contiguous().cuda()\<close> all produce new
  tensors. On the call of the module's own test, where every tensor is contiguous and on
  the CUDA device already, each of the seven tensors the extension receives is the very
  object the caller passed in. (With an extension that writes to its arguments the
  caller's tensor is therefore changed: \<open>writing_extension_changes_input\<close>.)
\<close>

theorem forward_passes_callers_own_tensors:
  "live_params demo_params harness_scene \<and>
   passed_ref means3d (snd (forward demo_lib demo_env demo_params harness_scene)) =
     means3d demo_params \<and>
   passed_ref scales (snd (forward demo_lib demo_env demo_params harness_scene)) =
     scales demo_params \<and>
   passed_ref rotations_quat (snd (forward demo_lib demo_env demo_params harness_scene)) =
     rotations_quat demo_params \<and>
   passed_ref colors (snd (forward demo_lib demo_env demo_params harness_scene)) =
     colors demo_params \<and>
   passed_ref opacity (snd (forward demo_lib demo_env demo_params harness_scene)) =
     opacity demo_params \<and>
   passed_ref view_matrix (snd (forward demo_lib demo_env demo_params harness_scene)) =
     view_matrix demo_params \<and>
   passed_ref proj_matrix (snd (forward demo_lib demo_env demo_params harness_scene)) =
     proj_matrix demo_params"
proof -
  have l: "live_params demo_params harness_scene"
    by (simp add: harness_scene_def live_demo)
  from forward_calls_after_prepare [OF prepare_harness, of demo_lib]
  have "fst (last (fwd_calls (snd (forward demo_lib demo_env demo_params harness_scene)))) =
      demo_args"
    by simp
  with l show ?thesis by (simp add: passed_ref_def demo_args_def)
qed

text \<open>
  Claim C5 (the code does not do this). Line 190 squeezes the last axis of the opacity
  gradient (\<open>backward_squeezes\<close>). For two Gaussians with opacities of the declared shape
  \<open>[2, 1]\<close>, \<^verbatim>\<open>forward\<close> returns, and \<^verbatim>\<open>backward\<close>, given by
  \<^verbatim>\<open>cuda_lib.rasterize_backward\<close> a gradient of the declared shape \<open>[2, 1]\<close>, returns in the
  position of \<^verbatim>\<open>opacity\<close> a tensor of shape \<open>[2]\<close>: not the shape \<open>[2, 1]\<close> of the opacity
  input.
\<close>

theorem opacity_gradient_shape_differs:
  "fst (forward demo_lib demo_env demo_params column_scene) = Inr ((0, 7, 8), demo_ctx) \<and>
   shape (tensor_at column_scene (opacity demo_params)) = [2, 1] \<and>
   shape (tensor_at after_forward (opacity demo_params)) = [2, 1] \<and>
   (\<exists>grads w' r. backward demo_lib demo_ctx None 7 None after_forward = (Inr grads, w') \<and>
      grads ! 5 = Some r \<and> shape (tensor_at w' r) = [2] \<and> shape (tensor_at w' r) \<noteq> [2, 1])"
proof -
  have a: "shape (tensor_at column_scene (opacity demo_params)) = [2, 1]"
    by (simp add: column_scene_def demo_tensor_at tens_def)
  have b: "shape (tensor_at after_forward (opacity demo_params)) = [2, 1]"
    by (simp add: tensor_at_def demo_params_def after_forward_store tens_def)
  from demo_backward_opacity
  have "\<exists>grads w' r. backward demo_lib demo_ctx None 7 None after_forward = (Inr grads, w') \<and>
      grads ! 5 = Some r \<and> shape (tensor_at w' r) = [2] \<and> shape (tensor_at w' r) \<noteq> [2, 1]"
    by auto
  with forward_column a b show ?thesis by blast
qed

text \<open>
  Claim C3 (the code does not do this). \<^verbatim>\<open>backward\<close> returns twelve entries, the
  gradients of the colours and of the opacities in positions 4 and 5 and \<open>None\<close>
  elsewhere (\<open>backward_result\<close>), while \<^verbatim>\<open>forward\<close> has thirteen parameters after
  \<^verbatim>\<open>ctx\<close>: the last one, \<^verbatim>\<open>channels\<close>, has no entry.
\<close>

theorem backward_returns_twelve_gradients:
  "fst (forward demo_lib demo_env demo_params column_scene) = Inr ((0, 7, 8), demo_ctx) \<and>
   (\<exists>grads w'. backward demo_lib demo_ctx None 7 None after_forward = (Inr grads, w') \<and>
      length grads = 12) \<and>
   length forward_parameters = 13 \<and> forward_parameters ! 12 = ''channels''"
proof -
  from demo_backward_opacity
  have "\<exists>grads w'. backward demo_lib demo_ctx None 7 None after_forward = (Inr grads, w') \<and>
      length grads = 12"
    by blast
  moreover have "length forward_parameters = 13" "forward_parameters ! 12 = ''channels''"
    by (simp_all add: forward_parameters_def)
  ultimately show ?thesis using forward_column by blast
qed

text \<open>
  Claim C8, for the compositor as the specification describes it. For every pixel, every
  threshold and every list of Gaussians whose opacity and alpha at the pixel lie in
  \<open>[0, 1]\<close>: the transmittance of the first state of the walk is 1, the transmittance
  after each step is at most the transmittance before it, and every transmittance along
  the walk lies in \<open>[0, 1]\<close>.
\<close>

theorem transmittance_non_increasing:
  assumes "\<forall>g \<in> set gs. valid_at px g"
  shows "transmittance (hd (walk thr px 0 gs (initial_state C))) = 1 \<and>
         (\<forall>k. Suc k < length (walk thr px 0 gs (initial_state C)) \<longrightarrow>
            transmittance (walk thr px 0 gs (initial_state C) ! Suc k) \<le>
            transmittance (walk thr px 0 gs (initial_state C) ! k)) \<and>
         (\<forall>s \<in> set (walk thr px 0 gs (initial_state C)).
            0 \<le> transmittance s \<and> transmittance s \<le> 1)"
proof -
  let ?w = "walk thr px 0 gs (initial_state C)"
  have t1: "transmittance (initial_state C) = 1" by (simp add: initial_state_def)
  from walk_transmittance [OF assms, of "initial_state C" thr 0]
  have srt: "sorted_wrt (\<lambda>a b. b \<le> a) (map transmittance ?w)"
    and bd: "\<forall>s \<in> set ?w. 0 \<le> transmittance s \<and> transmittance s \<le> 1"
    by (simp_all add: t1)
  have "transmittance (?w ! Suc k) \<le> transmittance (?w ! k)" if "Suc k < length ?w" for k
    using sorted_wrt_nth_less [OF srt, of k "Suc k"] that by simp
  with bd show ?thesis by (simp add: walk_hd t1)
qed

theorem transmittance_non_increasing_witness:
  "valid_at (0, 0) half_splat \<and> valid_at (0, 0) quarter_splat \<and>
   map transmittance (walk (1 / 255) (0, 0) 0 [half_splat, quarter_splat] (initial_state 3)) =
     [1, 1 / 2, 3 / 8] \<and>
   transmittance (hd (walk (1 / 255) (0, 0) 0 [half_splat, quarter_splat] (initial_state 3))) = 1 \<and>
   transmittance (walk (1 / 255) (0, 0) 0 [half_splat, quarter_splat] (initial_state 3) ! 2) \<le>
   transmittance (walk (1 / 255) (0, 0) 0 [half_splat, quarter_splat] (initial_state 3) ! 1)"
proof -
  let ?w = "walk (1 / 255) (0, 0) 0 [half_splat, quarter_splat] (initial_state 3)"
  have v: "\<forall>g \<in> set [half_splat, quarter_splat]. valid_at (0, 0) g"
    using demo_valid by simp
  have "length (map transmittance ?w) = 3" by (simp only: demo_walk) simp
  then have len: "Suc 1 < length ?w" by simp
  from transmittance_non_increasing [OF v, of "1 / 255" 3]
  have h: "transmittance (hd ?w) = 1"
    and s: "\<forall>k. Suc k < length ?w \<longrightarrow> transmittance (?w ! Suc k) \<le> transmittance (?w ! k)"
    by blast+
  from s len have "transmittance (?w ! Suc 1) \<le> transmittance (?w ! 1)" by blast
  then have "transmittance (?w ! 2) \<le> transmittance (?w ! 1)" by (simp add: numeral_2_eq_2)
  with demo_valid demo_walk h show ?thesis by blast
qed

end
